theory Spec2Isabelle
  imports Main
begin

section \<open>JSON values as Python sees them\<close>

text \<open>
  The events handled by \<^verbatim>\<open>utils.py\<close> are the result of \<^verbatim>\<open>response.json()\<close>: nested
  Python values built from \<^verbatim>\<open>None\<close>, booleans, integers, floats, strings, lists and
  dictionaries with string keys. A float is carried by the literal that \<^verbatim>\<open>json.dumps\<close>
  prints for it, which is all the program ever does with one besides testing its truth
  value. A dictionary is an association list read with \<open>map_of\<close>; strings are
  \<open>char list\<close>, one \<open>char\<close> per code point below 256.
\<close>

datatype json =
    JNull
  | JBool bool
  | JInt int
  | JFloat string
  | JStr string
  | JArr "json list"
  | JObj "(string \<times> json) list"

text \<open>Python's truth value of an object, as used by \<^verbatim>\<open>if x\<close>, \<^verbatim>\<open>x or y\<close> and \<^verbatim>\<open>while x\<close>.\<close>

fun truthy :: "json \<Rightarrow> bool" where
  "truthy JNull = False"
| "truthy (JBool b) = b"
| "truthy (JInt i) = (i \<noteq> 0)"
| "truthy (JFloat s) = (s \<noteq> ''0.0'' \<and> s \<noteq> ''-0.0'')"
| "truthy (JStr s) = (s \<noteq> [])"
| "truthy (JArr xs) = (xs \<noteq> [])"
| "truthy (JObj kv) = (kv \<noteq> [])"

text \<open>\<^verbatim>\<open>x or y\<close>: the first operand when it is true, the second otherwise.\<close>

definition py_or :: "json \<Rightarrow> json \<Rightarrow> json" where
  "py_or x y = (if truthy x then x else y)"

text \<open>\<^verbatim>\<open>d.get(key, default)\<close>; \<^verbatim>\<open>d.get(key)\<close> is \<open>dict_get d key JNull\<close>.\<close>

definition dict_get :: "(string \<times> json) list \<Rightarrow> string \<Rightarrow> json \<Rightarrow> json" where
  "dict_get d k dflt = (case map_of d k of None \<Rightarrow> dflt | Some v \<Rightarrow> v)"

text \<open>The exceptions the program raises or lets through, as values.\<close>

datatype error =
    EnvironmentError string
  | ValueError
  | AttributeError
  | TypeError
  | KeyError
  | IndexError
  | InvalidURL
  | IntegrityError
  | OperationalError
  | HTTPError

section \<open>Serialisation: \<^verbatim>\<open>json.dumps\<close>\<close>

text \<open>
  \<^verbatim>\<open>json.dumps(event)\<close> with its default arguments: separators \<^verbatim>\<open>", "\<close> and \<^verbatim>\<open>": "\<close>,
  \<^verbatim>\<open>ensure_ascii=True\<close>. Inside a string the backslash, the double quote and every
  character outside the range from space to tilde are escaped.
\<close>

fun show_nat :: "nat \<Rightarrow> string" where
  "show_nat n = (if n < 10 then [char_of (48 + n)]
                 else show_nat (n div 10) @ [char_of (48 + n mod 10)])"

definition show_int :: "int \<Rightarrow> string" where
  "show_int i = (if i < 0 then CHR ''-'' # show_nat (nat (- i)) else show_nat (nat i))"

definition hex_digit :: "nat \<Rightarrow> char" where
  "hex_digit n = (if n < 10 then char_of (48 + n) else char_of (87 + n))"

definition escape_char :: "char \<Rightarrow> string" where
  "escape_char c =
     (let n = (of_char c :: nat) in
      if n = 0x5C then [CHR 0x5C, CHR 0x5C]
      else if n = 0x22 then [CHR 0x5C, CHR 0x22]
      else if n = 0x08 then [CHR 0x5C, CHR ''b'']
      else if n = 0x0C then [CHR 0x5C, CHR ''f'']
      else if n = 0x0A then [CHR 0x5C, CHR ''n'']
      else if n = 0x0D then [CHR 0x5C, CHR ''r'']
      else if n = 0x09 then [CHR 0x5C, CHR ''t'']
      else if n < 0x20 \<or> 0x7E < n
        then [CHR 0x5C, CHR ''u'', CHR ''0'', CHR ''0'', hex_digit (n div 16), hex_digit (n mod 16)]
      else [c])"

definition dumps_str :: "string \<Rightarrow> string" where
  "dumps_str s = CHR 0x22 # concat (map escape_char s) @ [CHR 0x22]"

fun join :: "string \<Rightarrow> string list \<Rightarrow> string" where
  "join sep [] = []"
| "join sep [x] = x"
| "join sep (x # y # ys) = x @ sep @ join sep (y # ys)"

definition dumps_item :: "string \<times> string \<Rightarrow> string" where
  "dumps_item p = dumps_str (fst p) @ '': '' @ snd p"

primrec json_dumps :: "json \<Rightarrow> string" where
  "json_dumps JNull = ''null''"
| "json_dumps (JBool b) = (if b then ''true'' else ''false'')"
| "json_dumps (JInt i) = show_int i"
| "json_dumps (JFloat s) = s"
| "json_dumps (JStr s) = dumps_str s"
| "json_dumps (JArr xs) = ''['' @ join '', '' (map json_dumps xs) @ '']''"
| "json_dumps (JObj kv) =
     ''{'' @ join '', '' (map dumps_item (map (map_prod id json_dumps) kv)) @ ''}''"

section \<open>The persisted record\<close>

text \<open>
  \<^verbatim>\<open>ClickEvent\<close> of \<^verbatim>\<open>sqlalchemy_setup.py\<close>, one field per column in the order of the
  class. Python stores whatever value \<^verbatim>\<open>dict.get\<close> returned, so the columns hold JSON
  values and \<open>JNull\<close> is \<^verbatim>\<open>None\<close>. The type \<open>'dt\<close> stands for \<^verbatim>\<open>datetime\<close>.
\<close>

record 'dt ClickEvent =
  id' :: json
  distinct_id :: json
  timestamp :: 'dt
  current_url :: json
  pathname :: json
  event_type :: json
  element_text :: json
  element_tag :: json
  element_href :: json
  browser :: json
  os :: json
  country_code :: json
  referrer :: json
  referring_domain :: json
  city_name :: json
  region_name :: json
  country_name :: json
  postal_code :: json
  latitude :: json
  longitude :: json
  device_type :: json
  os_version :: json
  browser_version :: json
  viewport_width :: json
  viewport_height :: json
  session_id :: json
  raw_data :: string

section \<open>Transformation\<close>

text \<open>
  \<^verbatim>\<open>_parse_iso_datetime\<close>. The library parser \<^verbatim>\<open>datetime.fromisoformat\<close> is the
  parameter \<open>fromisoformat\<close>, with \<open>None\<close> for its \<^verbatim>\<open>ValueError\<close>. The loop over the two
  format strings never uses the format: each round calls the parser on the same string,
  and the call after the loop lets the \<^verbatim>\<open>ValueError\<close> escape. A value that is not a string
  has no \<^verbatim>\<open>endswith\<close>.
\<close>

definition endswith_Z :: "string \<Rightarrow> bool" where
  "endswith_Z s = (s \<noteq> [] \<and> last s = CHR ''Z'')"

fun try_formats :: "(string \<Rightarrow> 'dt option) \<Rightarrow> string list \<Rightarrow> string \<Rightarrow> 'dt option" where
  "try_formats fromisoformat [] s = None"
| "try_formats fromisoformat (fmt # fmts) s =
     (case fromisoformat s of Some d \<Rightarrow> Some d | None \<Rightarrow> try_formats fromisoformat fmts s)"

definition parse_iso_datetime :: "(string \<Rightarrow> 'dt option) \<Rightarrow> json \<Rightarrow> error + 'dt" where
  "parse_iso_datetime fromisoformat dt_str =
     (case dt_str of
        JStr s \<Rightarrow>
          (let s' = (if endswith_Z s then butlast s else s) in
           case try_formats fromisoformat [''%Y-%m-%dT%H:%M:%S.%f'', ''%Y-%m-%dT%H:%M:%S''] s' of
             Some d \<Rightarrow> Inr d
           | None \<Rightarrow> (case fromisoformat s' of Some d \<Rightarrow> Inr d | None \<Rightarrow> Inl ValueError))
      | _ \<Rightarrow> Inl AttributeError)"

text \<open>
  \<^verbatim>\<open>elements[0]\<close> on a true value: the first entry of a list, the first character of a
  string, \<^verbatim>\<open>KeyError\<close> on a dictionary (its keys are strings), \<^verbatim>\<open>TypeError\<close> on a number
  or a boolean, \<^verbatim>\<open>IndexError\<close> on an empty sequence (which the caller never passes).
\<close>

fun subscript0 :: "json \<Rightarrow> error + json" where
  "subscript0 (JArr (x # xs)) = Inr x"
| "subscript0 (JStr (c # cs)) = Inr (JStr [c])"
| "subscript0 (JObj kv) = Inl KeyError"
| "subscript0 (JArr []) = Inl IndexError"
| "subscript0 (JStr []) = Inl IndexError"
| "subscript0 _ = Inl TypeError"

text \<open>
  \<^verbatim>\<open>transform_event\<close>. \<open>now\<close> is what \<^verbatim>\<open>datetime.utcnow()\<close> returns at this call.
  The steps follow the source: timestamp, base fields, first element, then the
  constructor, whose first keyword argument calls \<^verbatim>\<open>props.get\<close> and whose later ones
  call \<^verbatim>\<open>first_el.get\<close>; either raises \<^verbatim>\<open>AttributeError\<close> on a value that is not a
  dictionary, as \<^verbatim>\<open>event.get\<close> does at the start.
\<close>

definition transform_event ::
  "(string \<Rightarrow> 'dt option) \<Rightarrow> 'dt \<Rightarrow> json \<Rightarrow> error + 'dt ClickEvent" where
  "transform_event fromisoformat now event =
     (case event of
        JObj ev \<Rightarrow>
          (let ts_str = dict_get ev ''timestamp'' JNull in
           case (if truthy ts_str then parse_iso_datetime fromisoformat ts_str else Inr now) of
             Inl e \<Rightarrow> Inl e
           | Inr ts \<Rightarrow>
              (let event_id = dict_get ev ''id'' (JStr []);
                   distinct = dict_get ev ''distinct_id'' (JStr []);
                   props = py_or (dict_get ev ''properties'' (JObj [])) (JObj []);
                   elements = py_or (dict_get ev ''elements'' (JArr [])) (JArr [])
               in case (if truthy elements then subscript0 elements else Inr (JObj [])) of
                    Inl e \<Rightarrow> Inl e
                  | Inr first_el \<Rightarrow>
                     (case props of
                        JObj ps \<Rightarrow>
                          (case first_el of
                             JObj fe \<Rightarrow>
                               Inr \<lparr> id' = event_id,
                                     distinct_id = distinct,
                                     timestamp = ts,
                                     current_url = dict_get ps ''$current_url'' JNull,
                                     pathname = dict_get ps ''$pathname'' JNull,
                                     event_type = dict_get ps ''$event_type'' JNull,
                                     element_text = py_or (dict_get ps ''$el_text'' JNull)
                                                          (dict_get fe ''text'' JNull),
                                     element_tag = dict_get fe ''tag_name'' JNull,
                                     element_href = dict_get fe ''href'' JNull,
                                     browser = dict_get ps ''$browser'' JNull,
                                     os = dict_get ps ''$os'' JNull,
                                     country_code = dict_get ps ''$geoip_country_code'' JNull,
                                     referrer = dict_get ps ''$referrer'' JNull,
                                     referring_domain = dict_get ps ''$referring_domain'' JNull,
                                     city_name = dict_get ps ''$geoip_city_name'' JNull,
                                     region_name = dict_get ps ''$geoip_subdivision_1_name'' JNull,
                                     country_name = dict_get ps ''$geoip_country_name'' JNull,
                                     postal_code = dict_get ps ''$geoip_postal_code'' JNull,
                                     latitude = dict_get ps ''$geoip_latitude'' JNull,
                                     longitude = dict_get ps ''$geoip_longitude'' JNull,
                                     device_type = dict_get ps ''$device_type'' JNull,
                                     os_version = dict_get ps ''$os_version'' JNull,
                                     browser_version = dict_get ps ''$browser_version'' JNull,
                                     viewport_width = dict_get ps ''$viewport_width'' JNull,
                                     viewport_height = dict_get ps ''$viewport_height'' JNull,
                                     session_id = dict_get ps ''$session_id'' JNull,
                                     raw_data = json_dumps event \<rparr>
                           | _ \<Rightarrow> Inl AttributeError)
                      | _ \<Rightarrow> Inl AttributeError)))
      | _ \<Rightarrow> Inl AttributeError)"

section \<open>The store\<close>

text \<open>
  The database table is the list of its rows in insertion order. A SQLAlchemy session
  made by \<^verbatim>\<open>SessionLocal()\<close> (a \<^verbatim>\<open>sessionmaker\<close> with its defaults, so with autoflush)
  is modelled by three lists: the rows of the table, the rows this transaction has
  inserted and not yet committed, and the objects given to \<^verbatim>\<open>add\<close> and not yet flushed.
  A flush inserts the pending objects in the order they were added; the table refuses a
  row whose primary key is null or already present, and a row whose \<^verbatim>\<open>distinct_id\<close> is
  null (the column is declared \<^verbatim>\<open>nullable=False\<close>; \<open>timestamp\<close> and \<open>raw_data\<close> are never
  null in a record built by \<open>transform_event\<close>). Keys are compared as JSON values: an id is a
  string in every event the provider sends, and the conversions that the driver and the
  database apply to other values are not modelled. Column widths, collations and writers
  other than this session are outside the model as well.
\<close>

record 'dt db_session =
  table :: "'dt ClickEvent list"
  flushed :: "'dt ClickEvent list"
  pending :: "'dt ClickEvent list"

definition SessionLocal :: "'dt ClickEvent list \<Rightarrow> 'dt db_session" where
  "SessionLocal tbl = \<lparr> table = tbl, flushed = [], pending = [] \<rparr>"

definition insertable :: "'dt ClickEvent list \<Rightarrow> 'dt ClickEvent \<Rightarrow> bool" where
  "insertable rows m =
     (id' m \<noteq> JNull \<and> distinct_id m \<noteq> JNull \<and> id' m \<notin> set (map id' rows))"

fun flush_rows ::
  "'dt ClickEvent list \<Rightarrow> 'dt ClickEvent list \<Rightarrow> 'dt ClickEvent list \<Rightarrow> error + 'dt ClickEvent list" where
  "flush_rows tbl fl [] = Inr fl"
| "flush_rows tbl fl (m # ms) =
     (if insertable (tbl @ fl) m then flush_rows tbl (fl @ [m]) ms else Inl IntegrityError)"

definition session_flush :: "'dt db_session \<Rightarrow> error + 'dt db_session" where
  "session_flush s =
     (case flush_rows (table s) (flushed s) (pending s) of
        Inl e \<Rightarrow> Inl e
      | Inr fl \<Rightarrow> Inr (s\<lparr> flushed := fl, pending := [] \<rparr>))"

text \<open>
  \<^verbatim>\<open>db.get(ClickEvent, key)\<close>: the pending objects are flushed first (autoflush), then the
  row with that primary key is selected; a null key selects nothing.
\<close>

definition session_get ::
  "'dt db_session \<Rightarrow> json \<Rightarrow> error + ('dt ClickEvent option \<times> 'dt db_session)" where
  "session_get s k =
     (case session_flush s of
        Inl e \<Rightarrow> Inl e
      | Inr s' \<Rightarrow>
          Inr (if k = JNull then None else find (\<lambda>r. id' r = k) (table s' @ flushed s'), s'))"

definition session_add :: "'dt db_session \<Rightarrow> 'dt ClickEvent \<Rightarrow> 'dt db_session" where
  "session_add s m = s\<lparr> pending := pending s @ [m] \<rparr>"

text \<open>
  \<^verbatim>\<open>db.commit()\<close>: flush, then commit the transaction. \<open>commit_ok\<close> says whether the
  database accepts the commit; when it does the inserted rows join the table.
\<close>

definition session_commit :: "bool \<Rightarrow> 'dt db_session \<Rightarrow> error + 'dt ClickEvent list" where
  "session_commit commit_ok s =
     (case session_flush s of
        Inl e \<Rightarrow> Inl e
      | Inr s' \<Rightarrow> if commit_ok then Inr (table s' @ flushed s') else Inl OperationalError)"

text \<open>
  The \<^verbatim>\<open>for\<close> loop of \<^verbatim>\<open>store_events\<close>. The \<open>k\<close>-th event of the batch is transformed
  at time \<open>clock k\<close>. An exception leaves the loop at once.
\<close>

fun store_loop ::
  "(string \<Rightarrow> 'dt option) \<Rightarrow> (nat \<Rightarrow> 'dt) \<Rightarrow> nat \<Rightarrow> json list \<Rightarrow> 'dt db_session \<Rightarrow> nat
     \<Rightarrow> error + ('dt db_session \<times> nat)" where
  "store_loop fromisoformat clock k [] db inserted_count = Inr (db, inserted_count)"
| "store_loop fromisoformat clock k (evt # evts) db inserted_count =
     (case transform_event fromisoformat (clock k) evt of
        Inl e \<Rightarrow> Inl e
      | Inr model \<Rightarrow>
          (case session_get db (id' model) of
             Inl e \<Rightarrow> Inl e
           | Inr (exists, db') \<Rightarrow>
               (case exists of
                  Some row \<Rightarrow> store_loop fromisoformat clock (Suc k) evts db' inserted_count
                | None \<Rightarrow>
                    store_loop fromisoformat clock (Suc k) evts (session_add db' model)
                      (inserted_count + 1))))"

text \<open>
  \<^verbatim>\<open>store_events\<close>: the result and the table afterwards. The \<^verbatim>\<open>except\<close> branch rolls the
  transaction back, which leaves the table as it was, and raises again.
\<close>

definition store_events ::
  "(string \<Rightarrow> 'dt option) \<Rightarrow> (nat \<Rightarrow> 'dt) \<Rightarrow> bool \<Rightarrow> json list \<Rightarrow> 'dt ClickEvent list
     \<Rightarrow> (error + nat) \<times> 'dt ClickEvent list" where
  "store_events fromisoformat clock commit_ok events tbl =
     (case store_loop fromisoformat clock 0 events (SessionLocal tbl) 0 of
        Inl e \<Rightarrow> (Inl e, tbl)
      | Inr (db, inserted_count) \<Rightarrow>
          (case session_commit commit_ok db of
             Inl e \<Rightarrow> (Inl e, tbl)
           | Inr tbl' \<Rightarrow> (Inr inserted_count, tbl')))"

section \<open>Configuration and fetching\<close>

text \<open>The environment is what \<^verbatim>\<open>os.getenv\<close> reads; \<^verbatim>\<open>not x\<close> holds of \<^verbatim>\<open>None\<close> and of the
  empty string.\<close>

definition env_set :: "string option \<Rightarrow> bool" where
  "env_set v = (case v of None \<Rightarrow> False | Some s \<Rightarrow> s \<noteq> [])"

definition env_str :: "string option \<Rightarrow> string" where
  "env_str v = (case v of None \<Rightarrow> ''None'' | Some s \<Rightarrow> s)"

definition rstrip_slash :: "string \<Rightarrow> string" where
  "rstrip_slash s = rev (dropWhile (\<lambda>c. c = CHR ''/'') (rev s))"

record posthog_config =
  api_key :: string
  project_id :: string
  base_url :: string

definition get_posthog_config :: "(string \<rightharpoonup> string) \<Rightarrow> error + posthog_config" where
  "get_posthog_config env =
     (let key = env ''POSTHOG_API_KEY'';
          project = env ''POSTHOG_PROJECT_ID'';
          base = (case env ''POSTHOG_BASE_HOST'' of
                    None \<Rightarrow> ''https://us.posthog.com'' | Some b \<Rightarrow> b)
      in if \<not> env_set key \<or> \<not> env_set project
         then Inl (EnvironmentError
                ''POSTHOG_API_KEY and POSTHOG_PROJECT_ID must be set in the environment.'')
         else Inr \<lparr> api_key = env_str key, project_id = env_str project,
                   base_url = rstrip_slash base \<rparr>)"

text \<open>
  One HTTP GET as \<^verbatim>\<open>session.get\<close> receives it. The provider is a state machine \<open>srv\<close>:
  from its state and a request it gives the next state and either the decoded JSON body
  or the exception of the transport, of \<^verbatim>\<open>raise_for_status\<close> or of \<^verbatim>\<open>response.json()\<close>.
\<close>

record request =
  req_url :: string
  req_headers :: "(string \<times> string) list"
  req_params :: "(string \<times> json) list option"
  req_timeout :: nat

text \<open>The request of one round of the loop: the original parameters go along exactly
  when the URL to fetch equals the initial URL.\<close>

definition make_request ::
  "string \<Rightarrow> (string \<times> string) list \<Rightarrow> (string \<times> json) list \<Rightarrow> string \<Rightarrow> request" where
  "make_request url headers params next_url =
     (if next_url = url
      then \<lparr> req_url = next_url, req_headers = headers, req_params = Some params, req_timeout = 30 \<rparr>
      else \<lparr> req_url = next_url, req_headers = headers, req_params = None, req_timeout = 30 \<rparr>)"

text \<open>\<^verbatim>\<open>events.extend(batch)\<close>: a list gives its entries, a string its characters, a
  dictionary its keys; anything else is not iterable.\<close>

fun list_extend :: "json list \<Rightarrow> json \<Rightarrow> error + json list" where
  "list_extend events (JArr xs) = Inr (events @ xs)"
| "list_extend events (JStr s) = Inr (events @ map (\<lambda>c. JStr [c]) s)"
| "list_extend events (JObj kv) = Inr (events @ map (\<lambda>p. JStr (fst p)) kv)"
| "list_extend events _ = Inl TypeError"

text \<open>
  The \<^verbatim>\<open>while next_url\<close> loop, with the requests issued so far as a log. The provider may
  hand out cursors for ever, so the loop is a partial function: \<open>None\<close> is a run that
  never returns. A true cursor that is not a string is no URL for \<^verbatim>\<open>session.get\<close>.
\<close>

partial_function (option) fetch_loop ::
  "('srv \<Rightarrow> request \<Rightarrow> (error + json) \<times> 'srv) \<Rightarrow> string \<Rightarrow> (string \<times> string) list
     \<Rightarrow> (string \<times> json) list \<Rightarrow> json \<Rightarrow> json list \<Rightarrow> request list \<Rightarrow> 'srv
     \<Rightarrow> ((error + json list) \<times> request list \<times> 'srv) option" where
  "fetch_loop srv url headers params next_url events log st =
     (if \<not> truthy next_url then Some (Inr events, log, st)
      else (case next_url of
              JStr u \<Rightarrow>
                (let req = make_request url headers params u in
                 case srv st req of
                   (Inl e, st') \<Rightarrow> Some (Inl e, log @ [req], st')
                 | (Inr data, st') \<Rightarrow>
                     (case data of
                        JObj d \<Rightarrow>
                          (case list_extend events (dict_get d ''results'' (JArr [])) of
                             Inl e \<Rightarrow> Some (Inl e, log @ [req], st')
                           | Inr events' \<Rightarrow>
                               fetch_loop srv url headers params (dict_get d ''next'' JNull)
                                 events' (log @ [req]) st')
                      | _ \<Rightarrow> Some (Inl AttributeError, log @ [req], st')))
            | _ \<Rightarrow> Some (Inl InvalidURL, log, st)))"

definition events_url :: "posthog_config \<Rightarrow> string" where
  "events_url cfg = base_url cfg @ ''/api/projects/'' @ project_id cfg @ ''/events/''"

definition auth_headers :: "posthog_config \<Rightarrow> (string \<times> string) list" where
  "auth_headers cfg =
     [(''Authorization'', ''Bearer '' @ api_key cfg), (''Content-Type'', ''application/json'')]"

definition query_params :: "string \<Rightarrow> string \<Rightarrow> string \<Rightarrow> int \<Rightarrow> (string \<times> json) list" where
  "query_params after before event_name limit =
     [(''after'', JStr after), (''before'', JStr before), (''event'', JStr event_name),
      (''limit'', JInt limit)]"

definition fetch_events ::
  "(string \<rightharpoonup> string) \<Rightarrow> ('srv \<Rightarrow> request \<Rightarrow> (error + json) \<times> 'srv) \<Rightarrow> 'srv
     \<Rightarrow> string \<Rightarrow> string \<Rightarrow> string \<Rightarrow> int
     \<Rightarrow> ((error + json list) \<times> request list \<times> 'srv) option" where
  "fetch_events env srv st after before event_name limit =
     (case get_posthog_config env of
        Inl e \<Rightarrow> Some (Inl e, [], st)
      | Inr cfg \<Rightarrow>
          fetch_loop srv (events_url cfg) (auth_headers cfg)
            (query_params after before event_name limit) (JStr (events_url cfg)) [] [] st)"

section \<open>The orchestrator and the command line\<close>

text \<open>
  The functions of \<^verbatim>\<open>datetime\<close> the program calls are taken from the library as they
  are: the parser, \<^verbatim>\<open>dt.replace(tzinfo=None).isoformat()\<close> and \<^verbatim>\<open>dt - timedelta(days=1)\<close>.
\<close>

record 'dt datetime_lib =
  fromisoformat :: "string \<Rightarrow> 'dt option"
  isoformat :: "'dt \<Rightarrow> string"
  minus_one_day :: "'dt \<Rightarrow> 'dt"

definition to_iso :: "'dt datetime_lib \<Rightarrow> 'dt \<Rightarrow> string" where
  "to_iso lib dt = isoformat lib dt @ ''Z''"

text \<open>What a run does to the outside, in order: the table creation at import, the HTTP
  requests, the database session of \<^verbatim>\<open>store_events\<close>.\<close>

datatype activity = DbCreateAll string | HttpGet request | DbSession

text \<open>
  \<^verbatim>\<open>sync_posthog_events\<close>: fetch, then store. The result carries the activities, the
  provider's state and the table afterwards; \<open>None\<close> is a fetch that never returns.
\<close>

definition sync_posthog_events ::
  "'dt datetime_lib \<Rightarrow> (string \<rightharpoonup> string) \<Rightarrow> ('srv \<Rightarrow> request \<Rightarrow> (error + json) \<times> 'srv)
     \<Rightarrow> (nat \<Rightarrow> 'dt) \<Rightarrow> bool \<Rightarrow> 'dt \<Rightarrow> 'dt \<Rightarrow> string \<Rightarrow> int \<Rightarrow> 'srv \<Rightarrow> 'dt ClickEvent list
     \<Rightarrow> ((error + nat) \<times> activity list \<times> 'srv \<times> 'dt ClickEvent list) option" where
  "sync_posthog_events lib env srv clock commit_ok start end' event_name limit st tbl =
     (case fetch_events env srv st (to_iso lib start) (to_iso lib end') event_name limit of
        None \<Rightarrow> None
      | Some (Inl e, log, st') \<Rightarrow> Some (Inl e, map HttpGet log, st', tbl)
      | Some (Inr events, log, st') \<Rightarrow>
          (case store_events (fromisoformat lib) clock commit_ok events tbl of
             (r, tbl') \<Rightarrow> Some (r, map HttpGet log @ [DbSession], st', tbl')))"

text \<open>
  The module body of \<^verbatim>\<open>sqlalchemy_setup.py\<close>, run when \<^verbatim>\<open>main.py\<close> imports \<^verbatim>\<open>utils\<close>. The
  environment \<open>env\<close> is the one \<^verbatim>\<open>os.getenv\<close> reads after \<^verbatim>\<open>load_dotenv()\<close>. The
  five credentials are checked, the engine URL is composed, and \<^verbatim>\<open>create_all\<close> connects
  to the database (\<open>create_all_ok\<close> says whether that succeeds).
\<close>

definition db_credentials_message :: string where
  "db_credentials_message =
     ''Database credentials are not fully specified in environment variables. '' @
     ''Please set DB_USER, DB_PASS, DB_HOST, DB_PORT, and DB_NAME.''"

definition engine_url :: "(string \<rightharpoonup> string) \<Rightarrow> string" where
  "engine_url env =
     ''mysql+pymysql://'' @ env_str (env ''DB_USER'') @ '':'' @ env_str (env ''DB_PASS'') @ ''@'' @
     env_str (env ''DB_HOST'') @ '':'' @ env_str (env ''DB_PORT'') @ ''/'' @ env_str (env ''DB_NAME'')"

definition sqlalchemy_setup :: "(string \<rightharpoonup> string) \<Rightarrow> bool \<Rightarrow> (error + unit) \<times> activity list" where
  "sqlalchemy_setup env create_all_ok =
     (if \<not> list_all env_set
             [env ''DB_USER'', env ''DB_PASS'', env ''DB_HOST'', env ''DB_PORT'', env ''DB_NAME'']
      then (Inl (EnvironmentError db_credentials_message), [])
      else if create_all_ok then (Inr (), [DbCreateAll (engine_url env)])
      else (Inl OperationalError, [DbCreateAll (engine_url env)]))"

text \<open>The parsed command line, and the window \<^verbatim>\<open>main\<close> derives from it; \<open>now\<close> is
  \<^verbatim>\<open>datetime.now()\<close>.\<close>

record args =
  args_start :: "string option"
  args_end :: "string option"
  args_event_name :: string
  args_limit :: int

definition iso_to_datetime :: "'dt datetime_lib \<Rightarrow> string \<Rightarrow> error + 'dt" where
  "iso_to_datetime lib v = (case fromisoformat lib v of None \<Rightarrow> Inl ValueError | Some d \<Rightarrow> Inr d)"

definition window :: "'dt datetime_lib \<Rightarrow> 'dt \<Rightarrow> args \<Rightarrow> error + ('dt \<times> 'dt)" where
  "window lib now a =
     (case (if env_set (args_end a) then iso_to_datetime lib (env_str (args_end a)) else Inr now) of
        Inl e \<Rightarrow> Inl e
      | Inr end' \<Rightarrow>
          (case (if env_set (args_start a) then iso_to_datetime lib (env_str (args_start a))
                 else Inr (minus_one_day lib end')) of
             Inl e \<Rightarrow> Inl e
           | Inr start \<Rightarrow> Inr (start, end')))"

text \<open>A whole run of \<^verbatim>\<open>main.py\<close>: the imports, then \<^verbatim>\<open>main()\<close>.\<close>

definition main ::
  "'dt datetime_lib \<Rightarrow> (string \<rightharpoonup> string) \<Rightarrow> ('srv \<Rightarrow> request \<Rightarrow> (error + json) \<times> 'srv)
     \<Rightarrow> (nat \<Rightarrow> 'dt) \<Rightarrow> bool \<Rightarrow> bool \<Rightarrow> 'dt \<Rightarrow> args \<Rightarrow> 'srv \<Rightarrow> 'dt ClickEvent list
     \<Rightarrow> ((error + nat) \<times> activity list \<times> 'srv \<times> 'dt ClickEvent list) option" where
  "main lib env srv clock commit_ok create_all_ok now a st tbl =
     (case sqlalchemy_setup env create_all_ok of
        (Inl e, acts) \<Rightarrow> Some (Inl e, acts, st, tbl)
      | (Inr u, acts) \<Rightarrow>
          (case window lib now a of
             Inl e \<Rightarrow> Some (Inl e, acts, st, tbl)
           | Inr (start, end') \<Rightarrow>
               (case sync_posthog_events lib env srv clock commit_ok start end'
                       (args_event_name a) (args_limit a) st tbl of
                  None \<Rightarrow> None
                | Some (r, acts', st', tbl') \<Rightarrow> Some (r, acts @ acts', st', tbl'))))"

section \<open>Properties of the transformation\<close>

lemma parse_iso_datetime_ok:
  "fromiso (if endswith_Z s then butlast s else s) = Some d \<Longrightarrow>
   parse_iso_datetime fromiso (JStr s) = Inr d"
  by (simp add: parse_iso_datetime_def Let_def)

text \<open>
  C4, as stated, fails: an event whose \<^verbatim>\<open>$el_text\<close> property is present but empty, with a
  first element whose text is \<^verbatim>\<open>Click\<close>, gets the element's text, because the source
  combines the two with \<^verbatim>\<open>or\<close>. The parser and the clock play no part at this input.
\<close>

theorem transform_event_text_precedence_counterexample:
  "map_sum id element_text
     (transform_event (\<lambda>s. None) (0::nat)
        (JObj [(''id'', JStr ''abc''),
               (''properties'', JObj [(''$el_text'', JStr [])]),
               (''elements'', JArr [JObj [(''text'', JStr ''Click'')]])]))
   = Inr (JStr ''Click'')"
  by (simp add: transform_event_def dict_get_def py_or_def)

text \<open>
  C4, amended: for every event whose properties are a dictionary and whose elements are
  a list that starts with a dictionary, and whose timestamp is absent, false-valued or a
  string the parser accepts, \<open>transform_event\<close> returns a record whose \<open>element_text\<close> is
  the \<^verbatim>\<open>$el_text\<close> property when that property is present with a true value (not null,
  not the empty string, not zero), and the first element's text otherwise.
\<close>

theorem transform_event_text_precedence:
  assumes ts: "\<not> truthy (dict_get ev ''timestamp'' JNull) \<or>
               (\<exists>s d. dict_get ev ''timestamp'' JNull = JStr s \<and>
                      fromiso (if endswith_Z s then butlast s else s) = Some d)"
    and props: "map_of ev ''properties'' = Some (JObj ps)"
    and els: "map_of ev ''elements'' = Some (JArr (JObj fe # rest))"
  shows "\<exists>r. transform_event fromiso now (JObj ev) = Inr r \<and>
            element_text r = (if truthy (dict_get ps ''$el_text'' JNull)
                              then dict_get ps ''$el_text'' JNull
                              else dict_get fe ''text'' JNull)"
proof -
  have p: "dict_get ev ''properties'' (JObj []) = JObj ps"
    and e: "dict_get ev ''elements'' (JArr []) = JArr (JObj fe # rest)"
    using props els by (simp_all add: dict_get_def)
  from ts show ?thesis
  proof
    assume "\<not> truthy (dict_get ev ''timestamp'' JNull)"
    then show ?thesis
      by (simp add: transform_event_def py_or_def Let_def p e)
  next
    assume "\<exists>s d. dict_get ev ''timestamp'' JNull = JStr s \<and>
                   fromiso (if endswith_Z s then butlast s else s) = Some d"
    then obtain s d where s: "dict_get ev ''timestamp'' JNull = JStr s"
      and d: "fromiso (if endswith_Z s then butlast s else s) = Some d" by blast
    have pd: "parse_iso_datetime fromiso (JStr s) = Inr d"
      using d by (rule parse_iso_datetime_ok)
    show ?thesis
      by (simp add: transform_event_def py_or_def Let_def p e s pd)
  qed
qed

theorem transform_event_text_precedence_witness:
  "\<exists>r. transform_event (\<lambda>s. None) (0::nat)
          (JObj [(''id'', JStr ''abc''),
                 (''properties'', JObj [(''$el_text'', JStr ''Buy'')]),
                 (''elements'', JArr [JObj [(''text'', JStr ''Click'')]])]) = Inr r \<and>
       element_text r = JStr ''Buy''"
  using transform_event_text_precedence
    [of "[(''id'', JStr ''abc''),
          (''properties'', JObj [(''$el_text'', JStr ''Buy'')]),
          (''elements'', JArr [JObj [(''text'', JStr ''Click'')]])]"
        "\<lambda>s. None" "[(''$el_text'', JStr ''Buy'')]" "[(''text'', JStr ''Click'')]" "[]" "0::nat"]
  by (simp add: dict_get_def)


lemma json_dumps_object_nonempty: "json_dumps (JObj kv) \<noteq> []"
  by simp



text \<open>
  C10, as stated, fails: \<open>transform_event\<close> is not total over JSON objects. An event whose
  timestamp is a number (seconds since the epoch, say) is true-valued and has no
  \<^verbatim>\<open>endswith\<close>, so \<^verbatim>\<open>_parse_iso_datetime\<close> raises \<^verbatim>\<open>AttributeError\<close>; the parser is never
  reached. A timestamp string the parser rejects, properties that are a true value other
  than a dictionary, and elements whose first entry is not a dictionary raise as well.
\<close>

theorem transform_event_total_counterexample:
  "transform_event (\<lambda>s. None) (0::nat)
     (JObj [(''id'', JStr ''abc''), (''timestamp'', JInt 1757930400)]) = Inl AttributeError"
  by (simp add: transform_event_def dict_get_def parse_iso_datetime_def)

lemma dict_get_Nil: "dict_get [] k d = d"
  by (simp add: dict_get_def)

text \<open>
  C10, amended: \<open>transform_event\<close> returns a record for every JSON object whose timestamp
  is absent, false-valued or a string the parser accepts (after a trailing \<^verbatim>\<open>Z\<close> is
  removed), whose properties are absent, false-valued or a dictionary, and whose
  elements are absent, false-valued or a list that starts with a dictionary. The record
  has the empty string as \<open>id\<close> or \<open>distinct_id\<close> when the event lacks that key; absent
  or null properties leave every property column null, absent or null elements leave
  the element columns null.
\<close>

theorem transform_event_total:
  assumes ts: "\<not> truthy (dict_get ev ''timestamp'' JNull) \<or>
               (\<exists>s d. dict_get ev ''timestamp'' JNull = JStr s \<and>
                      fromiso (if endswith_Z s then butlast s else s) = Some d)"
    and props: "\<not> truthy (dict_get ev ''properties'' (JObj [])) \<or>
                (\<exists>ps. dict_get ev ''properties'' (JObj []) = JObj ps)"
    and els: "\<not> truthy (dict_get ev ''elements'' (JArr [])) \<or>
              (\<exists>fe rest. dict_get ev ''elements'' (JArr []) = JArr (JObj fe # rest))"
  shows "\<exists>r. transform_event fromiso now (JObj ev) = Inr r \<and>
            id' r = dict_get ev ''id'' (JStr []) \<and>
            distinct_id r = dict_get ev ''distinct_id'' (JStr []) \<and>
            (map_of ev ''id'' = None \<longrightarrow> id' r = JStr []) \<and>
            (map_of ev ''distinct_id'' = None \<longrightarrow> distinct_id r = JStr []) \<and>
            (\<not> truthy (dict_get ev ''properties'' (JObj [])) \<longrightarrow>
               current_url r = JNull \<and> pathname r = JNull \<and> event_type r = JNull \<and>
               browser r = JNull \<and> os r = JNull \<and> country_code r = JNull \<and>
               referrer r = JNull \<and> referring_domain r = JNull \<and> city_name r = JNull \<and>
               region_name r = JNull \<and> country_name r = JNull \<and> postal_code r = JNull \<and>
               latitude r = JNull \<and> longitude r = JNull \<and> device_type r = JNull \<and>
               os_version r = JNull \<and> browser_version r = JNull \<and>
               viewport_width r = JNull \<and> viewport_height r = JNull \<and> session_id r = JNull) \<and>
            (\<not> truthy (dict_get ev ''elements'' (JArr [])) \<longrightarrow>
               element_tag r = JNull \<and> element_href r = JNull) \<and>
            (\<not> truthy (dict_get ev ''properties'' (JObj [])) \<and>
             \<not> truthy (dict_get ev ''elements'' (JArr [])) \<longrightarrow> element_text r = JNull)"
proof -
  have "\<exists>d. (if truthy (dict_get ev ''timestamp'' JNull)
             then parse_iso_datetime fromiso (dict_get ev ''timestamp'' JNull) else Inr now) = Inr d"
    using ts by (auto simp: parse_iso_datetime_ok)
  then obtain d where t: "(if truthy (dict_get ev ''timestamp'' JNull)
             then parse_iso_datetime fromiso (dict_get ev ''timestamp'' JNull) else Inr now) = Inr d"
    by blast
  have "\<exists>ps. py_or (dict_get ev ''properties'' (JObj [])) (JObj []) = JObj ps \<and>
          (\<not> truthy (dict_get ev ''properties'' (JObj [])) \<longrightarrow> ps = [])"
    using props by (auto simp: py_or_def)
  then obtain ps where p: "py_or (dict_get ev ''properties'' (JObj [])) (JObj []) = JObj ps"
    and pe: "\<not> truthy (dict_get ev ''properties'' (JObj [])) \<longrightarrow> ps = []"
    by blast
  have "\<exists>fe. (if truthy (py_or (dict_get ev ''elements'' (JArr [])) (JArr []))
             then subscript0 (py_or (dict_get ev ''elements'' (JArr [])) (JArr []))
             else Inr (JObj [])) = Inr (JObj fe) \<and>
          (\<not> truthy (dict_get ev ''elements'' (JArr [])) \<longrightarrow> fe = [])"
    using els by (auto simp: py_or_def)
  then obtain fe where f: "(if truthy (py_or (dict_get ev ''elements'' (JArr [])) (JArr []))
             then subscript0 (py_or (dict_get ev ''elements'' (JArr [])) (JArr []))
             else Inr (JObj [])) = Inr (JObj fe)"
    and fe: "\<not> truthy (dict_get ev ''elements'' (JArr [])) \<longrightarrow> fe = []"
    by blast
  have "transform_event fromiso now (JObj ev) =
     Inr \<lparr> id' = dict_get ev ''id'' (JStr []),
           distinct_id = dict_get ev ''distinct_id'' (JStr []),
           timestamp = d,
           current_url = dict_get ps ''$current_url'' JNull,
           pathname = dict_get ps ''$pathname'' JNull,
           event_type = dict_get ps ''$event_type'' JNull,
           element_text = py_or (dict_get ps ''$el_text'' JNull) (dict_get fe ''text'' JNull),
           element_tag = dict_get fe ''tag_name'' JNull,
           element_href = dict_get fe ''href'' JNull,
           browser = dict_get ps ''$browser'' JNull,
           os = dict_get ps ''$os'' JNull,
           country_code = dict_get ps ''$geoip_country_code'' JNull,
           referrer = dict_get ps ''$referrer'' JNull,
           referring_domain = dict_get ps ''$referring_domain'' JNull,
           city_name = dict_get ps ''$geoip_city_name'' JNull,
           region_name = dict_get ps ''$geoip_subdivision_1_name'' JNull,
           country_name = dict_get ps ''$geoip_country_name'' JNull,
           postal_code = dict_get ps ''$geoip_postal_code'' JNull,
           latitude = dict_get ps ''$geoip_latitude'' JNull,
           longitude = dict_get ps ''$geoip_longitude'' JNull,
           device_type = dict_get ps ''$device_type'' JNull,
           os_version = dict_get ps ''$os_version'' JNull,
           browser_version = dict_get ps ''$browser_version'' JNull,
           viewport_width = dict_get ps ''$viewport_width'' JNull,
           viewport_height = dict_get ps ''$viewport_height'' JNull,
           session_id = dict_get ps ''$session_id'' JNull,
           raw_data = json_dumps (JObj ev) \<rparr>" (is "_ = Inr ?r")
    unfolding transform_event_def Let_def
    by (simp only: t p f json.case sum.case)
  moreover have "map_of ev ''id'' = None \<longrightarrow> dict_get ev ''id'' (JStr []) = JStr []"
    "map_of ev ''distinct_id'' = None \<longrightarrow> dict_get ev ''distinct_id'' (JStr []) = JStr []"
    by (simp_all add: dict_get_def)
  ultimately show ?thesis
    using pe fe by (simp add: dict_get_Nil py_or_def)
qed

theorem transform_event_total_witness:
  "\<exists>r. transform_event (\<lambda>s. if s = ''2025-09-15T10:00:00'' then Some (1::nat) else None) 0
          (JObj [(''timestamp'', JStr ''2025-09-15T10:00:00Z''), (''properties'', JNull)]) = Inr r \<and>
       id' r = JStr [] \<and> distinct_id r = JStr [] \<and> current_url r = JNull \<and>
       element_tag r = JNull \<and> element_text r = JNull"
  using transform_event_total
    [of "[(''timestamp'', JStr ''2025-09-15T10:00:00Z''), (''properties'', JNull)]"
        "\<lambda>s. if s = ''2025-09-15T10:00:00'' then Some (1::nat) else None" "0::nat"]
  by (auto simp: dict_get_def endswith_Z_def)

section \<open>Properties of the store\<close>

lemma flush_rows_Inr:
  "flush_rows tbl fl ms = Inr fl' \<Longrightarrow>
     fl' = fl @ ms \<and> distinct (map id' ms) \<and>
     set (map id' ms) \<inter> set (map id' (tbl @ fl)) = {} \<and>
     (\<forall>m\<in>set ms. id' m \<noteq> JNull \<and> distinct_id m \<noteq> JNull)"
proof (induction ms arbitrary: fl)
  case Nil
  then show ?case by simp
next
  case (Cons m ms)
  from Cons.prems have ins: "insertable (tbl @ fl) m"
    and rec: "flush_rows tbl (fl @ [m]) ms = Inr fl'"
    by (simp_all split: if_splits)
  from Cons.IH [OF rec] ins show ?case
    by (auto simp: insertable_def)
qed

lemma session_flush_Inr:
  assumes "session_flush s = Inr s'"
  shows "table s' = table s" "flushed s' = flushed s @ pending s" "pending s' = []"
    "distinct (map id' (pending s))"
    "set (map id' (pending s)) \<inter> set (map id' (table s @ flushed s)) = {}"
  using assms flush_rows_Inr [of "table s" "flushed s" "pending s"]
  by (auto simp: session_flush_def split: sum.splits)

lemma store_loop_Inr:
  "store_loop f clock k evs s n = Inr (s', n') \<Longrightarrow>
     table s' = table s \<and>
     (\<exists>added. flushed s' @ pending s' = flushed s @ pending s @ added \<and>
              n' = n + length added) \<and>
     (distinct (map id' (flushed s)) \<and> set (map id' (flushed s)) \<inter> set (map id' (table s)) = {}
        \<longrightarrow> distinct (map id' (flushed s')) \<and>
            set (map id' (flushed s')) \<inter> set (map id' (table s)) = {})"
proof (induction evs arbitrary: k s n)
  case Nil
  then show ?case by simp
next
  case (Cons e evs)
  from Cons.prems obtain m where m: "transform_event f (clock k) e = Inr m"
    by (auto split: sum.splits)
  from Cons.prems m obtain ex s1 where g: "session_get s (id' m) = Inr (ex, s1)"
    by (auto split: sum.splits)
  then have fl: "session_flush s = Inr s1"
    by (auto simp: session_get_def split: sum.splits)
  note f1 = session_flush_Inr [OF fl]
  have good1: "distinct (map id' (flushed s)) \<and> set (map id' (flushed s)) \<inter> set (map id' (table s)) = {}
        \<longrightarrow> distinct (map id' (flushed s1)) \<and>
            set (map id' (flushed s1)) \<inter> set (map id' (table s)) = {}"
    using f1 by auto
  show ?case
  proof (cases ex)
    case None
    with Cons.prems m g
    have rec: "store_loop f clock (Suc k) evs (session_add s1 m) (n + 1) = Inr (s', n')"
      by simp
    from Cons.IH [OF rec] f1 good1 show ?thesis
      by (auto simp: session_add_def)
  next
    case (Some row)
    with Cons.prems m g
    have rec: "store_loop f clock (Suc k) evs s1 n = Inr (s', n')"
      by simp
    from Cons.IH [OF rec] f1 good1 show ?thesis
      by auto
  qed
qed

lemma store_events_Inl: "fst (store_events f clock c evs tbl) = Inl e \<Longrightarrow> snd (store_events f clock c evs tbl) = tbl"
  by (auto simp: store_events_def split: sum.splits prod.splits)

lemma store_events_Inr:
  assumes "store_events f clock c evs tbl = (Inr n, tbl')"
  shows "\<exists>rows. tbl' = tbl @ rows \<and> length rows = n \<and> distinct (map id' rows) \<and>
           set (map id' rows) \<inter> set (map id' tbl) = {}"
proof -
  from assms obtain s where
    loop: "store_loop f clock 0 evs (SessionLocal tbl) 0 = Inr (s, n)"
    and com: "session_commit c s = Inr tbl'"
    by (auto simp: store_events_def split: sum.splits prod.splits)
  from com obtain s2 where fl: "session_flush s = Inr s2" and t: "tbl' = table s2 @ flushed s2"
    by (auto simp: session_commit_def split: sum.splits if_splits)
  note f2 = session_flush_Inr [OF fl]
  from store_loop_Inr [OF loop]
  have "table s = tbl" "length (flushed s @ pending s) = n"
    "distinct (map id' (flushed s))" "set (map id' (flushed s)) \<inter> set (map id' tbl) = {}"
    by (auto simp: SessionLocal_def)
  with f2 t show ?thesis
    by (intro exI [of _ "flushed s @ pending s"]) auto
qed


lemma transform_event_clock:
  "transform_event f now e = Inr m \<Longrightarrow>
   \<exists>m'. transform_event f now' e = Inr m' \<and> id' m' = id' m \<and> distinct_id m' = distinct_id m"
proof -
  assume a: "transform_event f now e = Inr m"
  then obtain ev where e: "e = JObj ev"
    by (cases e) (simp_all add: transform_event_def)
  let ?ts = "dict_get ev ''timestamp'' JNull"
  let ?els = "py_or (dict_get ev ''elements'' (JArr [])) (JArr [])"
  from a e obtain d where d: "(if truthy ?ts then parse_iso_datetime f ?ts else Inr now) = Inr d"
    by (auto simp: transform_event_def Let_def split: sum.splits)
  from a e d obtain first_el where
    fe: "(if truthy ?els then subscript0 ?els else Inr (JObj [])) = Inr first_el"
    by (simp add: transform_event_def Let_def split: sum.splits)
  from a e d fe obtain ps where
    ps: "py_or (dict_get ev ''properties'' (JObj [])) (JObj []) = JObj ps"
    by (simp add: transform_event_def Let_def split: json.splits)
  from a e d fe ps obtain fel where fel: "first_el = JObj fel"
    by (simp add: transform_event_def Let_def split: json.splits)
  have d': "\<exists>d'. (if truthy ?ts then parse_iso_datetime f ?ts else Inr now') = Inr d'"
    using d by (auto split: if_splits)
  then obtain d' where d': "(if truthy ?ts then parse_iso_datetime f ?ts else Inr now') = Inr d'"
    by blast
  have m: "id' m = dict_get ev ''id'' (JStr [])" "distinct_id m = dict_get ev ''distinct_id'' (JStr [])"
    using a unfolding e transform_event_def Let_def
    by (auto simp only: d fe ps fel json.case sum.case sum.inject ClickEvent.simps)
  have "\<exists>m'. transform_event f now' e = Inr m' \<and> id' m' = dict_get ev ''id'' (JStr []) \<and>
           distinct_id m' = dict_get ev ''distinct_id'' (JStr [])"
    unfolding e transform_event_def Let_def
    by (simp only: d' fe ps fel json.case sum.case) simp
  with m show ?thesis by simp
qed

lemma find_id_Some:
  "find (\<lambda>r. id' r = k) rows = Some row \<Longrightarrow> k \<in> set (map id' rows)"
  by (auto simp: find_Some_iff)

lemma find_id_None:
  "find (\<lambda>r. id' r = k) rows = None \<Longrightarrow> k \<notin> set (map id' rows)"
  by (auto simp: find_None_iff)

lemma store_loop_ids:
  "store_loop f clock k evs s n = Inr (s', n') \<Longrightarrow>
     (\<exists>added. flushed s' @ pending s' = flushed s @ pending s @ added \<and>
        (\<forall>r\<in>set added. \<exists>e\<in>set evs. \<exists>now. transform_event f now e = Inr r) \<and>
        (\<forall>e\<in>set evs. \<exists>m now. transform_event f now e = Inr m \<and>
            (id' m \<noteq> JNull \<or> m \<in> set added) \<and>
            id' m \<in> set (map id' (table s @ flushed s @ pending s @ added))))"
proof (induction evs arbitrary: k s n)
  case Nil
  then show ?case by simp
next
  case (Cons e evs)
  from Cons.prems obtain m where m: "transform_event f (clock k) e = Inr m"
    by (auto split: sum.splits)
  from Cons.prems m obtain ex s1 where g: "session_get s (id' m) = Inr (ex, s1)"
    by (auto split: sum.splits)
  then have fl: "session_flush s = Inr s1"
    and ex: "ex = (if id' m = JNull then None else find (\<lambda>r. id' r = id' m) (table s1 @ flushed s1))"
    by (auto simp: session_get_def split: sum.splits)
  note f1 = session_flush_Inr(1-3) [OF fl]
  show ?case
  proof (cases ex)
    case None
    with Cons.prems m g
    have rec: "store_loop f clock (Suc k) evs (session_add s1 m) (n + 1) = Inr (s', n')"
      by simp
    from Cons.IH [OF rec] obtain added where
      a1: "flushed s' @ pending s' = flushed s @ pending s @ m # added"
      and a2: "\<forall>r\<in>set added. \<exists>e\<in>set evs. \<exists>now. transform_event f now e = Inr r"
      and a3: "\<forall>e\<in>set evs. \<exists>m' now. transform_event f now e = Inr m' \<and>
            (id' m' \<noteq> JNull \<or> m' \<in> set added) \<and>
            id' m' \<in> set (map id' (table s @ flushed s @ pending s @ m # added))"
      using f1 by (auto simp: session_add_def)
    have b2: "\<forall>r\<in>set (m # added). \<exists>e\<in>set (e # evs). \<exists>now. transform_event f now e = Inr r"
      using a2 m by auto
    have b3: "\<forall>x\<in>set (e # evs). \<exists>m' now. transform_event f now x = Inr m' \<and>
            (id' m' \<noteq> JNull \<or> m' \<in> set (m # added)) \<and>
            id' m' \<in> set (map id' (table s @ flushed s @ pending s @ m # added))"
    proof
      fix x assume "x \<in> set (e # evs)"
      then consider "x = e" | "x \<in> set evs" by auto
      then show "\<exists>m' now. transform_event f now x = Inr m' \<and>
            (id' m' \<noteq> JNull \<or> m' \<in> set (m # added)) \<and>
            id' m' \<in> set (map id' (table s @ flushed s @ pending s @ m # added))"
      proof cases
        case 1
        with m show ?thesis by (intro exI [of _ m] exI [of _ "clock k"]) simp
      next
        case 2
        with a3 obtain m' now where "transform_event f now x = Inr m'"
          "id' m' \<noteq> JNull \<or> m' \<in> set added"
          "id' m' \<in> set (map id' (table s @ flushed s @ pending s @ m # added))"
          by blast
        then show ?thesis by (intro exI [of _ m'] exI [of _ now]) auto
      qed
    qed
    from a1 b2 b3 show ?thesis by blast
  next
    case (Some row)
    with Cons.prems m g
    have rec: "store_loop f clock (Suc k) evs s1 n = Inr (s', n')"
      by simp
    from Some ex have nn: "id' m \<noteq> JNull"
      and fd: "find (\<lambda>r. id' r = id' m) (table s1 @ flushed s1) = Some row"
      by (auto split: if_splits)
    from find_id_Some [OF fd] f1
    have here: "id' m \<in> set (map id' (table s @ flushed s @ pending s))" by simp
    from Cons.IH [OF rec] obtain added where
      a1: "flushed s' @ pending s' = flushed s @ pending s @ added"
      and a2: "\<forall>r\<in>set added. \<exists>e\<in>set evs. \<exists>now. transform_event f now e = Inr r"
      and a3: "\<forall>e\<in>set evs. \<exists>m' now. transform_event f now e = Inr m' \<and>
            (id' m' \<noteq> JNull \<or> m' \<in> set added) \<and>
            id' m' \<in> set (map id' (table s @ flushed s @ pending s @ added))"
      using f1 by auto
    have b2: "\<forall>r\<in>set added. \<exists>e\<in>set (e # evs). \<exists>now. transform_event f now e = Inr r"
      using a2 by auto
    have b3: "\<forall>x\<in>set (e # evs). \<exists>m' now. transform_event f now x = Inr m' \<and>
            (id' m' \<noteq> JNull \<or> m' \<in> set added) \<and>
            id' m' \<in> set (map id' (table s @ flushed s @ pending s @ added))"
    proof
      fix x assume "x \<in> set (e # evs)"
      then consider "x = e" | "x \<in> set evs" by auto
      then show "\<exists>m' now. transform_event f now x = Inr m' \<and>
            (id' m' \<noteq> JNull \<or> m' \<in> set added) \<and>
            id' m' \<in> set (map id' (table s @ flushed s @ pending s @ added))"
      proof cases
        case 1
        with m nn here show ?thesis by (intro exI [of _ m] exI [of _ "clock k"]) auto
      next
        case 2
        with a3 show ?thesis by blast
      qed
    qed
    from a1 b2 b3 show ?thesis by blast
  qed
qed

lemma store_loop_no_error:
  assumes "\<forall>e\<in>set evs. \<forall>now. \<exists>m. transform_event f now e = Inr m \<and>
              id' m \<noteq> JNull \<and> distinct_id m \<noteq> JNull"
    and "\<exists>fl. flush_rows (table s) (flushed s) (pending s) = Inr fl"
  shows "\<exists>s' n'. store_loop f clock k evs s n = Inr (s', n') \<and>
           (\<exists>fl. flush_rows (table s') (flushed s') (pending s') = Inr fl)"
  using assms
proof (induction evs arbitrary: k s n)
  case Nil
  then show ?case by simp
next
  case (Cons e evs)
  from Cons.prems(1) obtain m where m: "transform_event f (clock k) e = Inr m"
    and nn: "id' m \<noteq> JNull" "distinct_id m \<noteq> JNull"
    by (metis list.set_intros(1))
  from Cons.prems(2) obtain fl where fl: "flush_rows (table s) (flushed s) (pending s) = Inr fl"
    by blast
  let ?s1 = "s\<lparr>flushed := fl, pending := []\<rparr>"
  have g: "session_get s (id' m) = Inr (find (\<lambda>r. id' r = id' m) (table s @ fl), ?s1)"
    using fl nn by (simp add: session_get_def session_flush_def)
  have rest: "\<forall>e\<in>set evs. \<forall>now. \<exists>m. transform_event f now e = Inr m \<and>
              id' m \<noteq> JNull \<and> distinct_id m \<noteq> JNull"
    using Cons.prems(1) by simp
  show ?case
  proof (cases "find (\<lambda>r. id' r = id' m) (table s @ fl)")
    case None
    then have "insertable (table s @ fl) m"
      using nn find_id_None [OF None] by (simp add: insertable_def)
    then have ok: "\<exists>fl'. flush_rows (table (session_add ?s1 m)) (flushed (session_add ?s1 m))
                      (pending (session_add ?s1 m)) = Inr fl'"
      by (simp add: session_add_def)
    from Cons.IH [OF rest ok, of "Suc k" "n + 1"] m g None show ?thesis by simp
  next
    case (Some row)
    have ok: "\<exists>fl'. flush_rows (table ?s1) (flushed ?s1) (pending ?s1) = Inr fl'"
      by simp
    from Cons.IH [OF rest ok, of "Suc k" n] m g Some show ?thesis by simp
  qed
qed

lemma store_events_no_error:
  assumes "\<forall>e\<in>set evs. \<forall>now. \<exists>m. transform_event f now e = Inr m \<and>
              id' m \<noteq> JNull \<and> distinct_id m \<noteq> JNull"
  shows "\<exists>n. fst (store_events f clock True evs tbl) = Inr n"
proof -
  have "\<exists>fl. flush_rows (table (SessionLocal tbl)) (flushed (SessionLocal tbl))
               (pending (SessionLocal tbl)) = Inr fl"
    by (simp add: SessionLocal_def)
  from store_loop_no_error [OF assms this, of clock 0 0]
  obtain s' n' fl where "store_loop f clock 0 evs (SessionLocal tbl) 0 = Inr (s', n')"
    "flush_rows (table s') (flushed s') (pending s') = Inr fl"
    by blast
  then show ?thesis
    by (simp add: store_events_def session_commit_def session_flush_def)
qed

lemma distinct_ids_at_most_one:
  "distinct (map id' rows) \<Longrightarrow> length (filter (\<lambda>r. id' r = k) rows) \<le> 1"
  by (induction rows) (auto simp: image_iff filter_empty_conv)

text \<open>
  C1: starting from a table with one row per id, the table after \<open>store_events\<close> has at
  most one row for every id, whatever the batch holds (an id stored before, an id twice in
  the batch) and whether the call returns or raises. And an event whose id exists is
  skipped without error: when the database accepts the commit and every event of the
  batch transforms into a record with an id and a \<open>distinct_id\<close> that are not null, the
  call returns a count, however many of the ids are already stored or repeated.
\<close>

theorem store_events_dedup:
  assumes "distinct (map id' tbl)"
  shows "(\<forall>k. length (filter (\<lambda>r. id' r = k) (snd (store_events f clock c evs tbl))) \<le> 1) \<and>
         (c \<and> (\<forall>e\<in>set evs. \<forall>now. \<exists>m. transform_event f now e = Inr m \<and>
                  id' m \<noteq> JNull \<and> distinct_id m \<noteq> JNull)
            \<longrightarrow> (\<exists>n. fst (store_events f clock c evs tbl) = Inr n))"
proof -
  have "distinct (map id' (snd (store_events f clock c evs tbl)))"
  proof (cases "fst (store_events f clock c evs tbl)")
    case (Inl e)
    then show ?thesis using assms store_events_Inl by metis
  next
    case (Inr n)
    then have "store_events f clock c evs tbl = (Inr n, snd (store_events f clock c evs tbl))"
      by (metis prod.collapse)
    from store_events_Inr [OF this] obtain rows where
      r: "snd (store_events f clock c evs tbl) = tbl @ rows" "distinct (map id' rows)"
        "set (map id' rows) \<inter> set (map id' tbl) = {}"
      by blast
    from r(2,3) assms have "distinct (map id' tbl @ map id' rows)"
      by (simp only: distinct_append) blast
    with r(1) show ?thesis by simp
  qed
  then have "\<forall>k. length (filter (\<lambda>r. id' r = k) (snd (store_events f clock c evs tbl))) \<le> 1"
    using distinct_ids_at_most_one by blast
  moreover have "c \<and> (\<forall>e\<in>set evs. \<forall>now. \<exists>m. transform_event f now e = Inr m \<and>
                  id' m \<noteq> JNull \<and> distinct_id m \<noteq> JNull)
            \<longrightarrow> (\<exists>n. fst (store_events f clock c evs tbl) = Inr n)"
    using store_events_no_error [of evs f clock tbl] by auto
  ultimately show ?thesis by blast
qed

text \<open>
  C7: when the database refuses the commit, \<open>store_events\<close> raises and the table is what it
  was before the call: nothing of the batch is persisted and nothing is tried again. The
  same holds for every other exception inside the call.
\<close>

theorem store_events_rollback:
  "(\<exists>e. store_events f clock False evs tbl = (Inl e, tbl)) \<and>
   (\<forall>c e. fst (store_events f clock c evs tbl) = Inl e \<longrightarrow>
          snd (store_events f clock c evs tbl) = tbl)"
proof
  show "\<exists>e. store_events f clock False evs tbl = (Inl e, tbl)"
    by (auto simp: store_events_def session_commit_def split: sum.splits prod.splits)
  show "\<forall>c e. fst (store_events f clock c evs tbl) = Inl e \<longrightarrow>
          snd (store_events f clock c evs tbl) = tbl"
    using store_events_Inl by blast
qed

lemma store_events_ids:
  assumes "store_events f clock c evs tbl = (Inr n, tbl')"
  shows "\<exists>rows. tbl' = tbl @ rows \<and>
           (\<forall>r\<in>set rows. \<exists>e\<in>set evs. \<exists>now. transform_event f now e = Inr r) \<and>
           (\<forall>e\<in>set evs. \<exists>m now. transform_event f now e = Inr m \<and> id' m \<noteq> JNull \<and>
               id' m \<in> set (map id' tbl'))"
proof -
  from assms obtain s where
    loop: "store_loop f clock 0 evs (SessionLocal tbl) 0 = Inr (s, n)"
    and com: "session_commit c s = Inr tbl'"
    by (auto simp: store_events_def split: sum.splits prod.splits)
  from com obtain s2 where fl: "session_flush s = Inr s2" and t: "tbl' = table s2 @ flushed s2"
    by (auto simp: session_commit_def split: sum.splits if_splits)
  note f2 = session_flush_Inr(1-3) [OF fl]
  from fl obtain fl' where fr: "flush_rows (table s) (flushed s) (pending s) = Inr fl'"
    by (auto simp: session_flush_def split: sum.splits)
  from flush_rows_Inr [OF fr] have pn: "\<forall>m\<in>set (pending s). id' m \<noteq> JNull" by blast
  have ts: "table s = tbl"
    using store_loop_Inr [OF loop] by (simp add: SessionLocal_def)
  from store_loop_ids [OF loop] obtain added where
    a1: "flushed s @ pending s = added"
    and a2: "\<forall>r\<in>set added. \<exists>e\<in>set evs. \<exists>now. transform_event f now e = Inr r"
    and a3: "\<forall>e\<in>set evs. \<exists>m now. transform_event f now e = Inr m \<and>
            (id' m \<noteq> JNull \<or> m \<in> set added) \<and> id' m \<in> set (map id' (tbl @ added))"
    by (auto simp: SessionLocal_def)
  have t': "tbl' = tbl @ added"
    using t f2 ts a1 by simp
  have fn: "\<forall>m\<in>set (flushed s). id' m \<noteq> JNull"
  proof -
    have "\<And>k evs s n s' n'. store_loop f clock k evs s n = Inr (s', n') \<Longrightarrow>
            (\<forall>m\<in>set (flushed s). id' m \<noteq> JNull) \<Longrightarrow> (\<forall>m\<in>set (flushed s'). id' m \<noteq> JNull)"
    proof -
      fix k evs s n s' n'
      show "store_loop f clock k evs s n = Inr (s', n') \<Longrightarrow>
            (\<forall>m\<in>set (flushed s). id' m \<noteq> JNull) \<Longrightarrow> (\<forall>m\<in>set (flushed s'). id' m \<noteq> JNull)"
      proof (induction evs arbitrary: k s n)
        case Nil
        then show ?case by simp
      next
        case (Cons e evs)
        from Cons.prems(1) obtain m where m: "transform_event f (clock k) e = Inr m"
          by (auto split: sum.splits)
        from Cons.prems(1) m obtain ex s1 where g: "session_get s (id' m) = Inr (ex, s1)"
          by (auto split: sum.splits)
        then have fl1: "session_flush s = Inr s1"
          by (auto simp: session_get_def split: sum.splits)
        from fl1 obtain fl1' where fr1: "flush_rows (table s) (flushed s) (pending s) = Inr fl1'"
          by (auto simp: session_flush_def split: sum.splits)
        have s1n: "\<forall>m\<in>set (flushed s1). id' m \<noteq> JNull"
          using flush_rows_Inr [OF fr1] session_flush_Inr(2) [OF fl1] Cons.prems(2) by auto
        show ?case
        proof (cases ex)
          case None
          with Cons.prems(1) m g
          have rec: "store_loop f clock (Suc k) evs (session_add s1 m) (n + 1) = Inr (s', n')"
            by simp
          have "\<forall>m\<in>set (flushed (session_add s1 m)). id' m \<noteq> JNull"
            using s1n by (simp add: session_add_def)
          from Cons.IH [OF rec this] show ?thesis .
        next
          case (Some row)
          with Cons.prems(1) m g
          have rec: "store_loop f clock (Suc k) evs s1 n = Inr (s', n')"
            by simp
          from Cons.IH [OF rec s1n] show ?thesis .
        qed
      qed
    qed
    from this [OF loop] show ?thesis by (simp add: SessionLocal_def)
  qed
  have an: "\<forall>m\<in>set added. id' m \<noteq> JNull"
    using fn pn a1 by auto
  have "\<forall>e\<in>set evs. \<exists>m now. transform_event f now e = Inr m \<and> id' m \<noteq> JNull \<and>
               id' m \<in> set (map id' tbl')"
    using a3 an t' by blast
  with t' a2 show ?thesis by blast
qed

lemma transform_event_id_unique:
  assumes "transform_event f now e = Inr m" "transform_event f now' e = Inr m'"
  shows "id' m = id' m'"
  using transform_event_clock [OF assms(1), of now'] assms(2) by auto

text \<open>
  C8: when \<open>store_events\<close> returns \<open>n\<close>, the table afterwards is the table before followed
  by exactly \<open>n\<close> new rows, with pairwise different ids none of which was in the table
  before. Their ids are the ids of the batch's events that were not stored yet, so \<open>n\<close>
  is the number of different ids in the batch that the table did not have: an event
  whose primary key exists, in the table or earlier in the batch, is not counted.
\<close>

theorem store_events_count:
  assumes "store_events f clock c evs tbl = (Inr n, tbl')"
  shows "\<exists>rows. tbl' = tbl @ rows \<and> length rows = n \<and> distinct (map id' rows) \<and>
           set (map id' rows) \<inter> set (map id' tbl) = {} \<and>
           set (map id' rows) =
             {k. \<exists>e\<in>set evs. \<exists>m now. transform_event f now e = Inr m \<and> id' m = k}
               - set (map id' tbl) \<and>
           n = card ({k. \<exists>e\<in>set evs. \<exists>m now. transform_event f now e = Inr m \<and> id' m = k}
                      - set (map id' tbl))"
proof -
  let ?K = "{k. \<exists>e\<in>set evs. \<exists>m now. transform_event f now e = Inr m \<and> id' m = k}"
  from store_events_Inr [OF assms] obtain rows where
    r: "tbl' = tbl @ rows" "length rows = n" "distinct (map id' rows)"
       "set (map id' rows) \<inter> set (map id' tbl) = {}"
    by blast
  from store_events_ids [OF assms] obtain rows' where
    r': "tbl' = tbl @ rows'"
    and a': "\<forall>r\<in>set rows'. \<exists>e\<in>set evs. \<exists>now. transform_event f now e = Inr r"
    and b': "\<forall>e\<in>set evs. \<exists>m now. transform_event f now e = Inr m \<and> id' m \<noteq> JNull \<and>
               id' m \<in> set (map id' tbl')"
    by blast
  from r' r(1) have same: "rows' = rows" by simp
  from a' same have
    a: "\<forall>r\<in>set rows. \<exists>e\<in>set evs. \<exists>now. transform_event f now e = Inr r"
    by simp
  from b' r(1) have
    b: "\<forall>e\<in>set evs. \<exists>m now. transform_event f now e = Inr m \<and>
               id' m \<in> set (map id' (tbl @ rows))"
    by blast
  have "set (map id' rows) = ?K - set (map id' tbl)"
  proof (intro set_eqI iffI)
    fix k assume k: "k \<in> set (map id' rows)"
    then obtain r where "r \<in> set rows" "id' r = k" by auto
    with a have "k \<in> ?K" by blast
    with k r(4) show "k \<in> ?K - set (map id' tbl)" by blast
  next
    fix k assume k: "k \<in> ?K - set (map id' tbl)"
    then obtain e m now where e: "e \<in> set evs" "transform_event f now e = Inr m" "id' m = k"
      by blast
    from b e(1) obtain m' now' where m': "transform_event f now' e = Inr m'"
      "id' m' \<in> set (map id' (tbl @ rows))" by blast
    from transform_event_id_unique [OF e(2) m'(1)] e(3) m'(2) k
    show "k \<in> set (map id' rows)" by auto
  qed
  moreover from this r(2,3) have "n = card (?K - set (map id' tbl))"
    using distinct_card [of "map id' rows"] by simp
  ultimately show ?thesis using r by blast
qed

lemmas store_eval = store_events_def SessionLocal_def session_get_def session_flush_def
  session_add_def session_commit_def insertable_def transform_event_def dict_get_def py_or_def

theorem store_events_rollback_witness:
  "(store_events (\<lambda>s. None) (\<lambda>k. k) False
     [JObj [(''id'', JStr ''a''), (''distinct_id'', JStr ''u'')],
      JObj [(''id'', JStr ''a''), (''distinct_id'', JStr ''u'')],
      JObj [(''id'', JStr ''b''), (''distinct_id'', JStr ''u'')]]
     [\<lparr> id' = JStr ''b'', distinct_id = JStr ''u'', timestamp = 0,
       current_url = JNull, pathname = JNull, event_type = JNull, element_text = JNull,
       element_tag = JNull, element_href = JNull, browser = JNull, os = JNull,
       country_code = JNull, referrer = JNull, referring_domain = JNull, city_name = JNull,
       region_name = JNull, country_name = JNull, postal_code = JNull, latitude = JNull,
       longitude = JNull, device_type = JNull, os_version = JNull, browser_version = JNull,
       viewport_width = JNull, viewport_height = JNull, session_id = JNull,
       raw_data = ''{}'' \<rparr> :: nat ClickEvent]) = (Inl OperationalError, [\<lparr> id' = JStr ''b'', distinct_id = JStr ''u'', timestamp = 0,
       current_url = JNull, pathname = JNull, event_type = JNull, element_text = JNull,
       element_tag = JNull, element_href = JNull, browser = JNull, os = JNull,
       country_code = JNull, referrer = JNull, referring_domain = JNull, city_name = JNull,
       region_name = JNull, country_name = JNull, postal_code = JNull, latitude = JNull,
       longitude = JNull, device_type = JNull, os_version = JNull, browser_version = JNull,
       viewport_width = JNull, viewport_height = JNull, session_id = JNull,
       raw_data = ''{}'' \<rparr> :: nat ClickEvent])"
proof -
  have "fst (store_events (\<lambda>s. None) (\<lambda>k. k) False
     [JObj [(''id'', JStr ''a''), (''distinct_id'', JStr ''u'')],
      JObj [(''id'', JStr ''a''), (''distinct_id'', JStr ''u'')],
      JObj [(''id'', JStr ''b''), (''distinct_id'', JStr ''u'')]]
     [\<lparr> id' = JStr ''b'', distinct_id = JStr ''u'', timestamp = 0,
       current_url = JNull, pathname = JNull, event_type = JNull, element_text = JNull,
       element_tag = JNull, element_href = JNull, browser = JNull, os = JNull,
       country_code = JNull, referrer = JNull, referring_domain = JNull, city_name = JNull,
       region_name = JNull, country_name = JNull, postal_code = JNull, latitude = JNull,
       longitude = JNull, device_type = JNull, os_version = JNull, browser_version = JNull,
       viewport_width = JNull, viewport_height = JNull, session_id = JNull,
       raw_data = ''{}'' \<rparr> :: nat ClickEvent]) = Inl OperationalError"
    by (simp add: store_eval)
  with store_events_rollback [of "\<lambda>s. None" "\<lambda>k. k"
      "[JObj [(''id'', JStr ''a''), (''distinct_id'', JStr ''u'')],
      JObj [(''id'', JStr ''a''), (''distinct_id'', JStr ''u'')],
      JObj [(''id'', JStr ''b''), (''distinct_id'', JStr ''u'')]]"
      "[\<lparr> id' = JStr ''b'', distinct_id = JStr ''u'', timestamp = 0,
       current_url = JNull, pathname = JNull, event_type = JNull, element_text = JNull,
       element_tag = JNull, element_href = JNull, browser = JNull, os = JNull,
       country_code = JNull, referrer = JNull, referring_domain = JNull, city_name = JNull,
       region_name = JNull, country_name = JNull, postal_code = JNull, latitude = JNull,
       longitude = JNull, device_type = JNull, os_version = JNull, browser_version = JNull,
       viewport_width = JNull, viewport_height = JNull, session_id = JNull,
       raw_data = ''{}'' \<rparr> :: nat ClickEvent]"]
  show ?thesis by (metis prod.collapse)
qed

theorem store_events_dedup_witness:
  "(\<forall>k. length (filter (\<lambda>r. id' r = k) (snd (store_events (\<lambda>s. None) (\<lambda>k. k) True
     [JObj [(''id'', JStr ''a''), (''distinct_id'', JStr ''u'')],
      JObj [(''id'', JStr ''a''), (''distinct_id'', JStr ''u'')],
      JObj [(''id'', JStr ''b''), (''distinct_id'', JStr ''u'')]]
     [\<lparr> id' = JStr ''b'', distinct_id = JStr ''u'', timestamp = 0,
       current_url = JNull, pathname = JNull, event_type = JNull, element_text = JNull,
       element_tag = JNull, element_href = JNull, browser = JNull, os = JNull,
       country_code = JNull, referrer = JNull, referring_domain = JNull, city_name = JNull,
       region_name = JNull, country_name = JNull, postal_code = JNull, latitude = JNull,
       longitude = JNull, device_type = JNull, os_version = JNull, browser_version = JNull,
       viewport_width = JNull, viewport_height = JNull, session_id = JNull,
       raw_data = ''{}'' \<rparr> :: nat ClickEvent]))) \<le> 1) \<and>
   (\<exists>n. fst (store_events (\<lambda>s. None) (\<lambda>k. k) True
     [JObj [(''id'', JStr ''a''), (''distinct_id'', JStr ''u'')],
      JObj [(''id'', JStr ''a''), (''distinct_id'', JStr ''u'')],
      JObj [(''id'', JStr ''b''), (''distinct_id'', JStr ''u'')]]
     [\<lparr> id' = JStr ''b'', distinct_id = JStr ''u'', timestamp = 0,
       current_url = JNull, pathname = JNull, event_type = JNull, element_text = JNull,
       element_tag = JNull, element_href = JNull, browser = JNull, os = JNull,
       country_code = JNull, referrer = JNull, referring_domain = JNull, city_name = JNull,
       region_name = JNull, country_name = JNull, postal_code = JNull, latitude = JNull,
       longitude = JNull, device_type = JNull, os_version = JNull, browser_version = JNull,
       viewport_width = JNull, viewport_height = JNull, session_id = JNull,
       raw_data = ''{}'' \<rparr> :: nat ClickEvent]) = Inr n)"
  using store_events_dedup [of "[\<lparr> id' = JStr ''b'', distinct_id = JStr ''u'', timestamp = 0,
       current_url = JNull, pathname = JNull, event_type = JNull, element_text = JNull,
       element_tag = JNull, element_href = JNull, browser = JNull, os = JNull,
       country_code = JNull, referrer = JNull, referring_domain = JNull, city_name = JNull,
       region_name = JNull, country_name = JNull, postal_code = JNull, latitude = JNull,
       longitude = JNull, device_type = JNull, os_version = JNull, browser_version = JNull,
       viewport_width = JNull, viewport_height = JNull, session_id = JNull,
       raw_data = ''{}'' \<rparr> :: nat ClickEvent]" "\<lambda>s. None" "\<lambda>k. k" True
      "[JObj [(''id'', JStr ''a''), (''distinct_id'', JStr ''u'')],
      JObj [(''id'', JStr ''a''), (''distinct_id'', JStr ''u'')],
      JObj [(''id'', JStr ''b''), (''distinct_id'', JStr ''u'')]]"]
  by (simp add: transform_event_def dict_get_def py_or_def)

theorem store_events_count_witness:
  "fst (store_events (\<lambda>s. None) (\<lambda>k. k) True
     [JObj [(''id'', JStr ''a''), (''distinct_id'', JStr ''u'')],
      JObj [(''id'', JStr ''a''), (''distinct_id'', JStr ''u'')],
      JObj [(''id'', JStr ''b''), (''distinct_id'', JStr ''u'')]]
     [\<lparr> id' = JStr ''b'', distinct_id = JStr ''u'', timestamp = 0,
       current_url = JNull, pathname = JNull, event_type = JNull, element_text = JNull,
       element_tag = JNull, element_href = JNull, browser = JNull, os = JNull,
       country_code = JNull, referrer = JNull, referring_domain = JNull, city_name = JNull,
       region_name = JNull, country_name = JNull, postal_code = JNull, latitude = JNull,
       longitude = JNull, device_type = JNull, os_version = JNull, browser_version = JNull,
       viewport_width = JNull, viewport_height = JNull, session_id = JNull,
       raw_data = ''{}'' \<rparr> :: nat ClickEvent]) = Inr 1 \<and>
   (1::nat) = card ({k. \<exists>e\<in>set [JObj [(''id'', JStr ''a''), (''distinct_id'', JStr ''u'')],
      JObj [(''id'', JStr ''a''), (''distinct_id'', JStr ''u'')],
      JObj [(''id'', JStr ''b''), (''distinct_id'', JStr ''u'')]].
                     \<exists>m now. transform_event (\<lambda>s. None) now e = Inr (m :: nat ClickEvent) \<and> id' m = k}
                 - set (map id' [\<lparr> id' = JStr ''b'', distinct_id = JStr ''u'', timestamp = 0,
       current_url = JNull, pathname = JNull, event_type = JNull, element_text = JNull,
       element_tag = JNull, element_href = JNull, browser = JNull, os = JNull,
       country_code = JNull, referrer = JNull, referring_domain = JNull, city_name = JNull,
       region_name = JNull, country_name = JNull, postal_code = JNull, latitude = JNull,
       longitude = JNull, device_type = JNull, os_version = JNull, browser_version = JNull,
       viewport_width = JNull, viewport_height = JNull, session_id = JNull,
       raw_data = ''{}'' \<rparr> :: nat ClickEvent]))"
proof -
  have "fst (store_events (\<lambda>s. None) (\<lambda>k. k) True
     [JObj [(''id'', JStr ''a''), (''distinct_id'', JStr ''u'')],
      JObj [(''id'', JStr ''a''), (''distinct_id'', JStr ''u'')],
      JObj [(''id'', JStr ''b''), (''distinct_id'', JStr ''u'')]]
     [\<lparr> id' = JStr ''b'', distinct_id = JStr ''u'', timestamp = 0,
       current_url = JNull, pathname = JNull, event_type = JNull, element_text = JNull,
       element_tag = JNull, element_href = JNull, browser = JNull, os = JNull,
       country_code = JNull, referrer = JNull, referring_domain = JNull, city_name = JNull,
       region_name = JNull, country_name = JNull, postal_code = JNull, latitude = JNull,
       longitude = JNull, device_type = JNull, os_version = JNull, browser_version = JNull,
       viewport_width = JNull, viewport_height = JNull, session_id = JNull,
       raw_data = ''{}'' \<rparr> :: nat ClickEvent]) = Inr 1"
    by (simp add: store_eval)
  then have "(store_events (\<lambda>s. None) (\<lambda>k. k) True
     [JObj [(''id'', JStr ''a''), (''distinct_id'', JStr ''u'')],
      JObj [(''id'', JStr ''a''), (''distinct_id'', JStr ''u'')],
      JObj [(''id'', JStr ''b''), (''distinct_id'', JStr ''u'')]]
     [\<lparr> id' = JStr ''b'', distinct_id = JStr ''u'', timestamp = 0,
       current_url = JNull, pathname = JNull, event_type = JNull, element_text = JNull,
       element_tag = JNull, element_href = JNull, browser = JNull, os = JNull,
       country_code = JNull, referrer = JNull, referring_domain = JNull, city_name = JNull,
       region_name = JNull, country_name = JNull, postal_code = JNull, latitude = JNull,
       longitude = JNull, device_type = JNull, os_version = JNull, browser_version = JNull,
       viewport_width = JNull, viewport_height = JNull, session_id = JNull,
       raw_data = ''{}'' \<rparr> :: nat ClickEvent]) = (Inr 1, snd (store_events (\<lambda>s. None) (\<lambda>k. k) True
     [JObj [(''id'', JStr ''a''), (''distinct_id'', JStr ''u'')],
      JObj [(''id'', JStr ''a''), (''distinct_id'', JStr ''u'')],
      JObj [(''id'', JStr ''b''), (''distinct_id'', JStr ''u'')]]
     [\<lparr> id' = JStr ''b'', distinct_id = JStr ''u'', timestamp = 0,
       current_url = JNull, pathname = JNull, event_type = JNull, element_text = JNull,
       element_tag = JNull, element_href = JNull, browser = JNull, os = JNull,
       country_code = JNull, referrer = JNull, referring_domain = JNull, city_name = JNull,
       region_name = JNull, country_name = JNull, postal_code = JNull, latitude = JNull,
       longitude = JNull, device_type = JNull, os_version = JNull, browser_version = JNull,
       viewport_width = JNull, viewport_height = JNull, session_id = JNull,
       raw_data = ''{}'' \<rparr> :: nat ClickEvent]))"
    by (metis prod.collapse)
  from store_events_count [OF this] show ?thesis
    using \<open>fst (store_events (\<lambda>s. None) (\<lambda>k. k) True
     [JObj [(''id'', JStr ''a''), (''distinct_id'', JStr ''u'')],
      JObj [(''id'', JStr ''a''), (''distinct_id'', JStr ''u'')],
      JObj [(''id'', JStr ''b''), (''distinct_id'', JStr ''u'')]]
     [\<lparr> id' = JStr ''b'', distinct_id = JStr ''u'', timestamp = 0,
       current_url = JNull, pathname = JNull, event_type = JNull, element_text = JNull,
       element_tag = JNull, element_href = JNull, browser = JNull, os = JNull,
       country_code = JNull, referrer = JNull, referring_domain = JNull, city_name = JNull,
       region_name = JNull, country_name = JNull, postal_code = JNull, latitude = JNull,
       longitude = JNull, device_type = JNull, os_version = JNull, browser_version = JNull,
       viewport_width = JNull, viewport_height = JNull, session_id = JNull,
       raw_data = ''{}'' \<rparr> :: nat ClickEvent]) = Inr 1\<close> by blast
qed

section \<open>Properties of the fetcher\<close>

lemma fetch_loop_stop:
  "\<not> truthy n \<Longrightarrow> fetch_loop srv url h p n events log st = Some (Inr events, log, st)"
  by (subst fetch_loop.simps) simp

lemma fetch_loop_step:
  assumes "u \<noteq> []"
    and "srv st (make_request url h p u) = (Inr (JObj d), st')"
    and "list_extend events (dict_get d ''results'' (JArr [])) = Inr events'"
  shows "fetch_loop srv url h p (JStr u) events log st =
         fetch_loop srv url h p (dict_get d ''next'' JNull) events'
           (log @ [make_request url h p u]) st'"
  using assms by (subst fetch_loop.simps) (simp add: Let_def)

lemma events_url_nonempty: "events_url cfg \<noteq> []"
  by (simp add: events_url_def)

text \<open>
  C3: the provider answers the first request with a page \<open>page1\<close> and a cursor \<open>c1\<close>, the
  request for \<open>c1\<close> with \<open>page2\<close> and a cursor \<open>c2\<close>, the request for \<open>c2\<close> with \<open>page3\<close>
  and no cursor (the key is absent or null). Then \<open>fetch_events\<close> returns, after exactly
  these three requests, the three pages one after the other, each in its own order: \<open>3 * N\<close>
  events when every page holds \<open>N\<close>.
\<close>

theorem fetch_events_three_pages:
  assumes cfg: "get_posthog_config env = Inr cfg"
    and r1: "srv st0 (make_request (events_url cfg) (auth_headers cfg)
                 (query_params after before event_name limit) (events_url cfg))
             = (Inr (JObj d1), st1)"
    and d1: "map_of d1 ''results'' = Some (JArr page1)" "map_of d1 ''next'' = Some (JStr c1)"
            "c1 \<noteq> []"
    and r2: "srv st1 (make_request (events_url cfg) (auth_headers cfg)
                 (query_params after before event_name limit) c1)
             = (Inr (JObj d2), st2)"
    and d2: "map_of d2 ''results'' = Some (JArr page2)" "map_of d2 ''next'' = Some (JStr c2)"
            "c2 \<noteq> []"
    and r3: "srv st2 (make_request (events_url cfg) (auth_headers cfg)
                 (query_params after before event_name limit) c2)
             = (Inr (JObj d3), st3)"
    and d3: "map_of d3 ''results'' = Some (JArr page3)"
            "map_of d3 ''next'' = None \<or> map_of d3 ''next'' = Some JNull"
    and len: "length page1 = N" "length page2 = N" "length page3 = N"
  shows "fetch_events env srv st0 after before event_name limit
           = Some (Inr (page1 @ page2 @ page3),
                   [make_request (events_url cfg) (auth_headers cfg)
                      (query_params after before event_name limit) (events_url cfg),
                    make_request (events_url cfg) (auth_headers cfg)
                      (query_params after before event_name limit) c1,
                    make_request (events_url cfg) (auth_headers cfg)
                      (query_params after before event_name limit) c2],
                   st3) \<and>
         length (page1 @ page2 @ page3) = 3 * N"
proof -
  let ?url = "events_url cfg" and ?h = "auth_headers cfg"
  let ?p = "query_params after before event_name limit"
  have e1: "list_extend [] (dict_get d1 ''results'' (JArr [])) = Inr page1"
    and n1: "dict_get d1 ''next'' JNull = JStr c1"
    using d1 by (simp_all add: dict_get_def)
  have e2: "list_extend page1 (dict_get d2 ''results'' (JArr [])) = Inr (page1 @ page2)"
    and n2: "dict_get d2 ''next'' JNull = JStr c2"
    using d2 by (simp_all add: dict_get_def)
  have e3: "list_extend (page1 @ page2) (dict_get d3 ''results'' (JArr []))
              = Inr ((page1 @ page2) @ page3)"
    and n3: "\<not> truthy (dict_get d3 ''next'' JNull)"
    using d3 by (auto simp: dict_get_def)
  have s1: "fetch_loop srv ?url ?h ?p (JStr ?url) [] [] st0 =
            fetch_loop srv ?url ?h ?p (JStr c1) page1 [make_request ?url ?h ?p ?url] st1"
    using fetch_loop_step [where srv = srv and st = st0 and u = ?url and url = ?url and h = ?h
        and p = ?p and d = d1 and st' = st1 and events = "[]" and events' = page1 and log = "[]"]
      events_url_nonempty r1 e1 n1 by simp
  have s2: "fetch_loop srv ?url ?h ?p (JStr c1) page1 [make_request ?url ?h ?p ?url] st1 =
            fetch_loop srv ?url ?h ?p (JStr c2) (page1 @ page2)
              [make_request ?url ?h ?p ?url, make_request ?url ?h ?p c1] st2"
    using fetch_loop_step [where srv = srv and st = st1 and u = c1 and url = ?url and h = ?h
        and p = ?p and d = d2 and st' = st2 and events = page1 and events' = "page1 @ page2"
        and log = "[make_request ?url ?h ?p ?url]"]
      d1(3) r2 e2 n2 by simp
  have s3: "fetch_loop srv ?url ?h ?p (JStr c2) (page1 @ page2)
              [make_request ?url ?h ?p ?url, make_request ?url ?h ?p c1] st2 =
            fetch_loop srv ?url ?h ?p (dict_get d3 ''next'' JNull) ((page1 @ page2) @ page3)
              [make_request ?url ?h ?p ?url, make_request ?url ?h ?p c1,
               make_request ?url ?h ?p c2] st3"
    using fetch_loop_step [where srv = srv and st = st2 and u = c2 and url = ?url and h = ?h
        and p = ?p and d = d3 and st' = st3 and events = "page1 @ page2"
        and events' = "(page1 @ page2) @ page3"
        and log = "[make_request ?url ?h ?p ?url, make_request ?url ?h ?p c1]"]
      d2(3) r3 e3 by simp
  have "fetch_loop srv ?url ?h ?p (JStr ?url) [] [] st0
        = Some (Inr (page1 @ page2 @ page3),
                [make_request ?url ?h ?p ?url, make_request ?url ?h ?p c1,
                 make_request ?url ?h ?p c2], st3)"
    using s1 s2 s3 fetch_loop_stop [OF n3] by simp
  then have "fetch_events env srv st0 after before event_name limit
           = Some (Inr (page1 @ page2 @ page3),
                   [make_request ?url ?h ?p ?url, make_request ?url ?h ?p c1,
                    make_request ?url ?h ?p c2], st3)"
    by (simp add: fetch_events_def cfg)
  moreover have "length (page1 @ page2 @ page3) = 3 * N"
    using len by simp
  ultimately show ?thesis by simp
qed


lemma fetch_loop_JStr:
  "fetch_loop srv url h p (JStr u) events log st =
     (if u = [] then Some (Inr events, log, st)
      else (let req = make_request url h p u in
            case srv st req of
              (Inl e, st') \<Rightarrow> Some (Inl e, log @ [req], st')
            | (Inr data, st') \<Rightarrow>
                (case data of
                   JObj d \<Rightarrow>
                     (case list_extend events (dict_get d ''results'' (JArr [])) of
                        Inl e \<Rightarrow> Some (Inl e, log @ [req], st')
                      | Inr events' \<Rightarrow>
                          fetch_loop srv url h p (dict_get d ''next'' JNull)
                            events' (log @ [req]) st')
                 | _ \<Rightarrow> Some (Inl AttributeError, log @ [req], st'))))"
  by (subst fetch_loop.simps) simp

lemma make_request_cursor:
  "c \<noteq> url \<Longrightarrow>
   make_request url h p c =
     \<lparr> req_url = c, req_headers = h, req_params = None, req_timeout = 30 \<rparr>"
  by (simp add: make_request_def)

lemma fetch_loop_JNull:
  "fetch_loop srv url h p JNull events log st = Some (Inr events, log, st)"
  by (rule fetch_loop_stop) simp

lemmas config_eval = get_posthog_config_def env_set_def env_str_def rstrip_slash_def
  events_url_def auth_headers_def query_params_def

theorem fetch_events_three_pages_witness:
  "fetch_events
     [''POSTHOG_API_KEY'' \<mapsto> ''key'', ''POSTHOG_PROJECT_ID'' \<mapsto> ''1'']
     (\<lambda>n req.
        (if n = (0::nat) then
           Inr (JObj [(''results'', JArr [JObj [(''id'', JStr ''e1'')]]),
                      (''next'', JStr ''https://us.posthog.com/api/projects/1/events/?offset=1'')])
         else if n = 1 then
           Inr (JObj [(''results'', JArr [JObj [(''id'', JStr ''e2'')]]),
                      (''next'', JStr ''https://us.posthog.com/api/projects/1/events/?offset=2'')])
         else
           Inr (JObj [(''results'', JArr [JObj [(''id'', JStr ''e3'')]]), (''next'', JNull)]),
         n + 1))
     0 ''2025-09-15T00:00:00Z'' ''2025-09-16T00:00:00Z'' ''$autocapture'' 100
   = Some (Inr [JObj [(''id'', JStr ''e1'')], JObj [(''id'', JStr ''e2'')],
                JObj [(''id'', JStr ''e3'')]],
           [\<lparr> req_url = ''https://us.posthog.com/api/projects/1/events/'',
               req_headers = [(''Authorization'', ''Bearer key''),
                              (''Content-Type'', ''application/json'')],
               req_params = Some [(''after'', JStr ''2025-09-15T00:00:00Z''),
                                  (''before'', JStr ''2025-09-16T00:00:00Z''),
                                  (''event'', JStr ''$autocapture''), (''limit'', JInt 100)],
               req_timeout = 30 \<rparr>,
            \<lparr> req_url = ''https://us.posthog.com/api/projects/1/events/?offset=1'',
               req_headers = [(''Authorization'', ''Bearer key''),
                              (''Content-Type'', ''application/json'')],
               req_params = None, req_timeout = 30 \<rparr>,
            \<lparr> req_url = ''https://us.posthog.com/api/projects/1/events/?offset=2'',
               req_headers = [(''Authorization'', ''Bearer key''),
                              (''Content-Type'', ''application/json'')],
               req_params = None, req_timeout = 30 \<rparr>],
           3)"
  using fetch_events_three_pages
    [of "[''POSTHOG_API_KEY'' \<mapsto> ''key'', ''POSTHOG_PROJECT_ID'' \<mapsto> ''1'']"
        "\<lparr> api_key = ''key'', project_id = ''1'', base_url = ''https://us.posthog.com'' \<rparr>"
        "(\<lambda>n req.
        (if n = (0::nat) then
           Inr (JObj [(''results'', JArr [JObj [(''id'', JStr ''e1'')]]),
                      (''next'', JStr ''https://us.posthog.com/api/projects/1/events/?offset=1'')])
         else if n = 1 then
           Inr (JObj [(''results'', JArr [JObj [(''id'', JStr ''e2'')]]),
                      (''next'', JStr ''https://us.posthog.com/api/projects/1/events/?offset=2'')])
         else
           Inr (JObj [(''results'', JArr [JObj [(''id'', JStr ''e3'')]]), (''next'', JNull)]),
         n + 1))"
        0 "''2025-09-15T00:00:00Z''" "''2025-09-16T00:00:00Z''" "''$autocapture''" 100
        "[(''results'', JArr [JObj [(''id'', JStr ''e1'')]]),
          (''next'', JStr ''https://us.posthog.com/api/projects/1/events/?offset=1'')]"
        1
        "[JObj [(''id'', JStr ''e1'')]]"
        "''https://us.posthog.com/api/projects/1/events/?offset=1''"
        "[(''results'', JArr [JObj [(''id'', JStr ''e2'')]]),
          (''next'', JStr ''https://us.posthog.com/api/projects/1/events/?offset=2'')]"
        2
        "[JObj [(''id'', JStr ''e2'')]]"
        "''https://us.posthog.com/api/projects/1/events/?offset=2''"
        "[(''results'', JArr [JObj [(''id'', JStr ''e3'')]]), (''next'', JNull)]"
        3
        "[JObj [(''id'', JStr ''e3'')]]"
        1]
  by (simp add: config_eval make_request_def)

text \<open>
  C9 at a cursor equal to the initial URL. The source tells the first round from the
  later ones by \<^verbatim>\<open>next_url == url\<close>, while its comment says that the original parameters
  are not to be applied again to a \<^verbatim>\<open>next\<close> URL. When the provider's cursor is the initial
  URL itself, the follow-up request carries the four query parameters again.
\<close>

theorem fetch_events_cursor_equal_to_url:
  "fetch_events
     [''POSTHOG_API_KEY'' \<mapsto> ''key'', ''POSTHOG_PROJECT_ID'' \<mapsto> ''1'']
     (\<lambda>n req.
        (if n = (0::nat) then
           Inr (JObj [(''results'', JArr []),
                      (''next'', JStr ''https://us.posthog.com/api/projects/1/events/'')])
         else Inr (JObj [(''results'', JArr []), (''next'', JNull)]),
         n + 1))
     0 ''2025-09-15T00:00:00Z'' ''2025-09-16T00:00:00Z'' ''$autocapture'' 100
   = Some (Inr [],
           [\<lparr> req_url = ''https://us.posthog.com/api/projects/1/events/'',
               req_headers = [(''Authorization'', ''Bearer key''),
                              (''Content-Type'', ''application/json'')],
               req_params = Some [(''after'', JStr ''2025-09-15T00:00:00Z''),
                                  (''before'', JStr ''2025-09-16T00:00:00Z''),
                                  (''event'', JStr ''$autocapture''), (''limit'', JInt 100)],
               req_timeout = 30 \<rparr>,
            \<lparr> req_url = ''https://us.posthog.com/api/projects/1/events/'',
               req_headers = [(''Authorization'', ''Bearer key''),
                              (''Content-Type'', ''application/json'')],
               req_params = Some [(''after'', JStr ''2025-09-15T00:00:00Z''),
                                  (''before'', JStr ''2025-09-16T00:00:00Z''),
                                  (''event'', JStr ''$autocapture''), (''limit'', JInt 100)],
               req_timeout = 30 \<rparr>],
           2)"
  by (simp add: fetch_events_def config_eval make_request_def fetch_loop_JStr fetch_loop_JNull
        dict_get_def Let_def)

section \<open>Properties of the orchestrator\<close>

lemma session_get_fresh:
  "k \<noteq> JNull \<Longrightarrow>
   session_get (SessionLocal tbl) k = Inr (find (\<lambda>r. id' r = k) tbl, SessionLocal tbl)"
  by (simp add: session_get_def session_flush_def SessionLocal_def)

lemma store_loop_all_present:
  assumes "\<forall>e\<in>set evs. \<exists>m now. transform_event f now e = Inr m \<and> id' m \<noteq> JNull \<and>
             id' m \<in> set (map id' tbl)"
  shows "store_loop f clock k evs (SessionLocal tbl) n = Inr (SessionLocal tbl, n)"
  using assms
proof (induction evs arbitrary: k)
  case Nil
  then show ?case by simp
next
  case (Cons e evs)
  from Cons.prems obtain m now where m: "transform_event f now e = Inr m"
    "id' m \<noteq> JNull" "id' m \<in> set (map id' tbl)"
    by (metis list.set_intros(1))
  from transform_event_clock [OF m(1), of "clock k"] obtain m' where
    m': "transform_event f (clock k) e = Inr m'" "id' m' = id' m" by blast
  from m(3) obtain row where row: "find (\<lambda>r. id' r = id' m) tbl = Some row"
    using find_id_None [of "id' m" tbl] by (cases "find (\<lambda>r. id' r = id' m) tbl") auto
  have rest: "\<forall>e\<in>set evs. \<exists>m now. transform_event f now e = Inr m \<and> id' m \<noteq> JNull \<and>
             id' m \<in> set (map id' tbl)"
    using Cons.prems by simp
  from Cons.IH [OF rest, of "Suc k"] m' m(2) row show ?case
    by (simp add: session_get_fresh)
qed

lemma store_events_all_present:
  assumes "\<forall>e\<in>set evs. \<exists>m now. transform_event f now e = Inr m \<and> id' m \<noteq> JNull \<and>
             id' m \<in> set (map id' tbl)"
  shows "store_events f clock c evs tbl = (if c then Inr 0 else Inl OperationalError, tbl)"
  using store_loop_all_present [OF assms, of clock 0 0]
  by (simp add: store_events_def session_commit_def session_flush_def SessionLocal_def)

text \<open>
  C2: a first run of \<open>sync_posthog_events\<close> returned a count, and a second run with the
  same parameters is handed the same events by the fetcher. Then the second run leaves
  the table exactly as the first run left it, and it returns 0 (when the database
  refuses even this empty commit, it raises instead, and still nothing is inserted). The
  clock and the provider's state may differ between the two runs.
\<close>

theorem sync_posthog_events_idempotent:
  assumes first: "sync_posthog_events lib env srv clock1 c1 start end' event_name limit st0 tbl0
                    = Some (Inr n1, acts1, st1, tbl1)"
    and fetch1: "fetch_events env srv st0 (to_iso lib start) (to_iso lib end') event_name limit
                    = Some (Inr evs, log1, st1)"
    and fetch2: "fetch_events env srv st1 (to_iso lib start) (to_iso lib end') event_name limit
                    = Some (Inr evs, log2, st2)"
  shows "sync_posthog_events lib env srv clock2 c2 start end' event_name limit st1 tbl1
           = Some (if c2 then Inr 0 else Inl OperationalError,
                   map HttpGet log2 @ [DbSession], st2, tbl1)"
proof -
  from first fetch1 have "store_events (fromisoformat lib) clock1 c1 evs tbl0 = (Inr n1, tbl1)"
    by (auto simp: sync_posthog_events_def split: prod.splits)
  from store_events_ids [OF this]
  have "\<forall>e\<in>set evs. \<exists>m now. transform_event (fromisoformat lib) now e = Inr m \<and>
           id' m \<noteq> JNull \<and> id' m \<in> set (map id' tbl1)"
    by blast
  from store_events_all_present [OF this, of clock2 c2] fetch2 show ?thesis
    by (simp add: sync_posthog_events_def)
qed


theorem sync_posthog_events_idempotent_witness:
  "sync_posthog_events
     \<lparr> fromisoformat = \<lambda>s. None, isoformat = \<lambda>d. if d = 15 then ''2025-09-15T00:00:00'' else ''2025-09-16T00:00:00'', minus_one_day = \<lambda>d. d - 1 \<rparr>
     [''POSTHOG_API_KEY'' \<mapsto> ''key'', ''POSTHOG_PROJECT_ID'' \<mapsto> ''1'']
     (\<lambda>st req. (Inr (JObj [(''results'', JArr [JObj [(''id'', JStr ''a''), (''distinct_id'', JStr ''u'')],
      JObj [(''id'', JStr ''b''), (''distinct_id'', JStr ''u'')]]), (''next'', JNull)]), st))
     (\<lambda>k. k) True 15 16 ''$autocapture'' 100 ()
     [\<lparr> id' = JStr ''a'', distinct_id = JStr ''u'', timestamp = 0,
        current_url = JNull, pathname = JNull, event_type = JNull, element_text = JNull,
        element_tag = JNull, element_href = JNull, browser = JNull, os = JNull,
        country_code = JNull, referrer = JNull, referring_domain = JNull, city_name = JNull,
        region_name = JNull, country_name = JNull, postal_code = JNull, latitude = JNull,
        longitude = JNull, device_type = JNull, os_version = JNull, browser_version = JNull,
        viewport_width = JNull, viewport_height = JNull, session_id = JNull,
        raw_data = json_dumps (JObj [(''id'', JStr ''a''), (''distinct_id'', JStr ''u'')]) \<rparr>,
      \<lparr> id' = JStr ''b'', distinct_id = JStr ''u'', timestamp = 1,
        current_url = JNull, pathname = JNull, event_type = JNull, element_text = JNull,
        element_tag = JNull, element_href = JNull, browser = JNull, os = JNull,
        country_code = JNull, referrer = JNull, referring_domain = JNull, city_name = JNull,
        region_name = JNull, country_name = JNull, postal_code = JNull, latitude = JNull,
        longitude = JNull, device_type = JNull, os_version = JNull, browser_version = JNull,
        viewport_width = JNull, viewport_height = JNull, session_id = JNull,
        raw_data = json_dumps (JObj [(''id'', JStr ''b''), (''distinct_id'', JStr ''u'')]) \<rparr> :: nat ClickEvent]
   = Some (Inr 0, [HttpGet \<lparr> req_url = ''https://us.posthog.com/api/projects/1/events/'',
         req_headers = [(''Authorization'', ''Bearer key''), (''Content-Type'', ''application/json'')],
         req_params = Some [(''after'', JStr ''2025-09-15T00:00:00Z''),
                            (''before'', JStr ''2025-09-16T00:00:00Z''),
                            (''event'', JStr ''$autocapture''), (''limit'', JInt 100)],
         req_timeout = 30 \<rparr>, DbSession], (), [\<lparr> id' = JStr ''a'', distinct_id = JStr ''u'', timestamp = 0,
        current_url = JNull, pathname = JNull, event_type = JNull, element_text = JNull,
        element_tag = JNull, element_href = JNull, browser = JNull, os = JNull,
        country_code = JNull, referrer = JNull, referring_domain = JNull, city_name = JNull,
        region_name = JNull, country_name = JNull, postal_code = JNull, latitude = JNull,
        longitude = JNull, device_type = JNull, os_version = JNull, browser_version = JNull,
        viewport_width = JNull, viewport_height = JNull, session_id = JNull,
        raw_data = json_dumps (JObj [(''id'', JStr ''a''), (''distinct_id'', JStr ''u'')]) \<rparr>,
      \<lparr> id' = JStr ''b'', distinct_id = JStr ''u'', timestamp = 1,
        current_url = JNull, pathname = JNull, event_type = JNull, element_text = JNull,
        element_tag = JNull, element_href = JNull, browser = JNull, os = JNull,
        country_code = JNull, referrer = JNull, referring_domain = JNull, city_name = JNull,
        region_name = JNull, country_name = JNull, postal_code = JNull, latitude = JNull,
        longitude = JNull, device_type = JNull, os_version = JNull, browser_version = JNull,
        viewport_width = JNull, viewport_height = JNull, session_id = JNull,
        raw_data = json_dumps (JObj [(''id'', JStr ''b''), (''distinct_id'', JStr ''u'')]) \<rparr> :: nat ClickEvent])"
proof -
  have f: "fetch_events
     [''POSTHOG_API_KEY'' \<mapsto> ''key'', ''POSTHOG_PROJECT_ID'' \<mapsto> ''1'']
     (\<lambda>st req. (Inr (JObj [(''results'', JArr [JObj [(''id'', JStr ''a''), (''distinct_id'', JStr ''u'')],
      JObj [(''id'', JStr ''b''), (''distinct_id'', JStr ''u'')]]), (''next'', JNull)]), st))
     () (to_iso \<lparr> fromisoformat = \<lambda>s. None, isoformat = \<lambda>d. if d = 15 then ''2025-09-15T00:00:00'' else ''2025-09-16T00:00:00'', minus_one_day = \<lambda>d. d - 1 \<rparr> (15::nat)) (to_iso \<lparr> fromisoformat = \<lambda>s. None, isoformat = \<lambda>d. if d = 15 then ''2025-09-15T00:00:00'' else ''2025-09-16T00:00:00'', minus_one_day = \<lambda>d. d - 1 \<rparr> (16::nat)) ''$autocapture'' 100
    = Some (Inr [JObj [(''id'', JStr ''a''), (''distinct_id'', JStr ''u'')],
      JObj [(''id'', JStr ''b''), (''distinct_id'', JStr ''u'')]], [\<lparr> req_url = ''https://us.posthog.com/api/projects/1/events/'',
         req_headers = [(''Authorization'', ''Bearer key''), (''Content-Type'', ''application/json'')],
         req_params = Some [(''after'', JStr ''2025-09-15T00:00:00Z''),
                            (''before'', JStr ''2025-09-16T00:00:00Z''),
                            (''event'', JStr ''$autocapture''), (''limit'', JInt 100)],
         req_timeout = 30 \<rparr>], ())"
    by (simp add: fetch_events_def config_eval make_request_def fetch_loop_JStr fetch_loop_JNull
          dict_get_def Let_def to_iso_def)
  have first: "sync_posthog_events
     \<lparr> fromisoformat = \<lambda>s. None, isoformat = \<lambda>d. if d = 15 then ''2025-09-15T00:00:00'' else ''2025-09-16T00:00:00'', minus_one_day = \<lambda>d. d - 1 \<rparr>
     [''POSTHOG_API_KEY'' \<mapsto> ''key'', ''POSTHOG_PROJECT_ID'' \<mapsto> ''1'']
     (\<lambda>st req. (Inr (JObj [(''results'', JArr [JObj [(''id'', JStr ''a''), (''distinct_id'', JStr ''u'')],
      JObj [(''id'', JStr ''b''), (''distinct_id'', JStr ''u'')]]), (''next'', JNull)]), st))
     (\<lambda>k. k) True 15 16 ''$autocapture'' 100 ()
     ([] :: nat ClickEvent list)
    = Some (Inr 2, [HttpGet \<lparr> req_url = ''https://us.posthog.com/api/projects/1/events/'',
         req_headers = [(''Authorization'', ''Bearer key''), (''Content-Type'', ''application/json'')],
         req_params = Some [(''after'', JStr ''2025-09-15T00:00:00Z''),
                            (''before'', JStr ''2025-09-16T00:00:00Z''),
                            (''event'', JStr ''$autocapture''), (''limit'', JInt 100)],
         req_timeout = 30 \<rparr>, DbSession], (), [\<lparr> id' = JStr ''a'', distinct_id = JStr ''u'', timestamp = 0,
        current_url = JNull, pathname = JNull, event_type = JNull, element_text = JNull,
        element_tag = JNull, element_href = JNull, browser = JNull, os = JNull,
        country_code = JNull, referrer = JNull, referring_domain = JNull, city_name = JNull,
        region_name = JNull, country_name = JNull, postal_code = JNull, latitude = JNull,
        longitude = JNull, device_type = JNull, os_version = JNull, browser_version = JNull,
        viewport_width = JNull, viewport_height = JNull, session_id = JNull,
        raw_data = json_dumps (JObj [(''id'', JStr ''a''), (''distinct_id'', JStr ''u'')]) \<rparr>,
      \<lparr> id' = JStr ''b'', distinct_id = JStr ''u'', timestamp = 1,
        current_url = JNull, pathname = JNull, event_type = JNull, element_text = JNull,
        element_tag = JNull, element_href = JNull, browser = JNull, os = JNull,
        country_code = JNull, referrer = JNull, referring_domain = JNull, city_name = JNull,
        region_name = JNull, country_name = JNull, postal_code = JNull, latitude = JNull,
        longitude = JNull, device_type = JNull, os_version = JNull, browser_version = JNull,
        viewport_width = JNull, viewport_height = JNull, session_id = JNull,
        raw_data = json_dumps (JObj [(''id'', JStr ''b''), (''distinct_id'', JStr ''u'')]) \<rparr> :: nat ClickEvent])"
    by (simp add: sync_posthog_events_def fetch_events_def config_eval make_request_def
          fetch_loop_JStr fetch_loop_JNull Let_def to_iso_def store_eval)
  from sync_posthog_events_idempotent [OF first f f, of "\<lambda>k. k" True]
  show ?thesis by simp
qed

section \<open>Properties of the start-up\<close>

text \<open>
  C6, as stated, fails for the API key and the project id. The database credentials are
  checked while \<^verbatim>\<open>sqlalchemy_setup\<close> is imported, but the two PostHog values are checked
  only inside \<^verbatim>\<open>fetch_events\<close>. With every database credential set and the API key
  missing, the run has already connected to the database to create the table when the
  configuration error is raised.
\<close>

theorem main_configuration_error_counterexample:
  "main \<lparr> fromisoformat = \<lambda>s. None, isoformat = \<lambda>d. ''2025-09-15T00:00:00'',
          minus_one_day = \<lambda>d. d \<rparr>
     [''DB_USER'' \<mapsto> ''u'', ''DB_PASS'' \<mapsto> ''p'', ''DB_HOST'' \<mapsto> ''h'',
      ''DB_PORT'' \<mapsto> ''3306'', ''DB_NAME'' \<mapsto> ''n'', ''POSTHOG_PROJECT_ID'' \<mapsto> ''1'']
     (\<lambda>st req. (Inl HTTPError, st)) (\<lambda>k. k) True True (15::nat)
     \<lparr> args_start = None, args_end = None, args_event_name = ''$autocapture'',
       args_limit = 100 \<rparr>
     () []
   = Some (Inl (EnvironmentError
                 ''POSTHOG_API_KEY and POSTHOG_PROJECT_ID must be set in the environment.''),
           [DbCreateAll ''mysql+pymysql://u:p@h:3306/n''], (), [])"
  by (simp add: main_def sqlalchemy_setup_def engine_url_def window_def
        sync_posthog_events_def fetch_events_def get_posthog_config_def env_set_def env_str_def)

text \<open>
  C6, amended. When a database credential is missing, the run raises the configuration
  error that names the five variables before any network or database activity. When the
  database credentials are set and the API key or the project id is missing, and the
  table creation at import succeeded and the command-line timestamps parse, the run
  raises the configuration error that names the two PostHog variables: after the table
  creation, before any HTTP request and before the session of \<open>store_events\<close>.
\<close>

theorem main_configuration_error:
  "(\<not> list_all env_set
        [env ''DB_USER'', env ''DB_PASS'', env ''DB_HOST'', env ''DB_PORT'', env ''DB_NAME'']
      \<longrightarrow> main lib env srv clock commit_ok create_all_ok now a st tbl
            = Some (Inl (EnvironmentError db_credentials_message), [], st, tbl)) \<and>
   (list_all env_set
        [env ''DB_USER'', env ''DB_PASS'', env ''DB_HOST'', env ''DB_PORT'', env ''DB_NAME''] \<and>
    (\<not> env_set (env ''POSTHOG_API_KEY'') \<or> \<not> env_set (env ''POSTHOG_PROJECT_ID'')) \<and>
    create_all_ok \<and> (\<exists>w. window lib now a = Inr w)
      \<longrightarrow> main lib env srv clock commit_ok create_all_ok now a st tbl
            = Some (Inl (EnvironmentError
                  ''POSTHOG_API_KEY and POSTHOG_PROJECT_ID must be set in the environment.''),
                    [DbCreateAll (engine_url env)], st, tbl))"
proof (intro conjI impI)
  assume "\<not> list_all env_set
        [env ''DB_USER'', env ''DB_PASS'', env ''DB_HOST'', env ''DB_PORT'', env ''DB_NAME'']"
  then show "main lib env srv clock commit_ok create_all_ok now a st tbl
            = Some (Inl (EnvironmentError db_credentials_message), [], st, tbl)"
    by (simp add: main_def sqlalchemy_setup_def)
next
  assume h: "list_all env_set
        [env ''DB_USER'', env ''DB_PASS'', env ''DB_HOST'', env ''DB_PORT'', env ''DB_NAME''] \<and>
    (\<not> env_set (env ''POSTHOG_API_KEY'') \<or> \<not> env_set (env ''POSTHOG_PROJECT_ID'')) \<and>
    create_all_ok \<and> (\<exists>w. window lib now a = Inr w)"
  then obtain start end' where w: "window lib now a = Inr (start, end')" by auto
  from h have su: "sqlalchemy_setup env create_all_ok = (Inr (), [DbCreateAll (engine_url env)])"
    by (simp add: sqlalchemy_setup_def)
  from h have cfg: "get_posthog_config env = Inl (EnvironmentError
                  ''POSTHOG_API_KEY and POSTHOG_PROJECT_ID must be set in the environment.'')"
    by (auto simp: get_posthog_config_def Let_def)
  show "main lib env srv clock commit_ok create_all_ok now a st tbl
            = Some (Inl (EnvironmentError
                  ''POSTHOG_API_KEY and POSTHOG_PROJECT_ID must be set in the environment.''),
                    [DbCreateAll (engine_url env)], st, tbl)"
    by (simp add: main_def su w sync_posthog_events_def fetch_events_def cfg)
qed

theorem main_configuration_error_witness:
  "main \<lparr> fromisoformat = \<lambda>s. None, isoformat = \<lambda>d. ''2025-09-15T00:00:00'',
          minus_one_day = \<lambda>d. d \<rparr>
     [''DB_USER'' \<mapsto> ''u'', ''DB_PASS'' \<mapsto> ''p'', ''DB_HOST'' \<mapsto> ''h'',
      ''DB_PORT'' \<mapsto> ''3306'', ''POSTHOG_API_KEY'' \<mapsto> ''key'']
     (\<lambda>st req. (Inl HTTPError, st)) (\<lambda>k. k) True True (15::nat)
     \<lparr> args_start = None, args_end = None, args_event_name = ''$autocapture'',
       args_limit = 100 \<rparr>
     () []
   = Some (Inl (EnvironmentError db_credentials_message), [], (), []) \<and>
   main \<lparr> fromisoformat = \<lambda>s. None, isoformat = \<lambda>d. ''2025-09-15T00:00:00'',
          minus_one_day = \<lambda>d. d \<rparr>
     [''DB_USER'' \<mapsto> ''u'', ''DB_PASS'' \<mapsto> ''p'', ''DB_HOST'' \<mapsto> ''h'',
      ''DB_PORT'' \<mapsto> ''3306'', ''DB_NAME'' \<mapsto> ''n'', ''POSTHOG_API_KEY'' \<mapsto> ''key'']
     (\<lambda>st req. (Inl HTTPError, st)) (\<lambda>k. k) True True (15::nat)
     \<lparr> args_start = None, args_end = None, args_event_name = ''$autocapture'',
       args_limit = 100 \<rparr>
     () []
   = Some (Inl (EnvironmentError
                 ''POSTHOG_API_KEY and POSTHOG_PROJECT_ID must be set in the environment.''),
           [DbCreateAll ''mysql+pymysql://u:p@h:3306/n''], (), [])"
  using main_configuration_error
    [of "[''DB_USER'' \<mapsto> ''u'', ''DB_PASS'' \<mapsto> ''p'', ''DB_HOST'' \<mapsto> ''h'',
          ''DB_PORT'' \<mapsto> ''3306'', ''POSTHOG_API_KEY'' \<mapsto> ''key'']"
        "\<lparr> fromisoformat = \<lambda>s. None, isoformat = \<lambda>d. ''2025-09-15T00:00:00'',
          minus_one_day = \<lambda>d. d \<rparr>"
        "\<lambda>st req. (Inl HTTPError, st)" "\<lambda>k. k" True True "15::nat"
        "\<lparr> args_start = None, args_end = None, args_event_name = ''$autocapture'',
           args_limit = 100 \<rparr>" "()" "[]"]
    main_configuration_error
    [of "[''DB_USER'' \<mapsto> ''u'', ''DB_PASS'' \<mapsto> ''p'', ''DB_HOST'' \<mapsto> ''h'',
          ''DB_PORT'' \<mapsto> ''3306'', ''DB_NAME'' \<mapsto> ''n'', ''POSTHOG_API_KEY'' \<mapsto> ''key'']"
        "\<lparr> fromisoformat = \<lambda>s. None, isoformat = \<lambda>d. ''2025-09-15T00:00:00'',
          minus_one_day = \<lambda>d. d \<rparr>"
        "\<lambda>st req. (Inl HTTPError, st)" "\<lambda>k. k" True True "15::nat"
        "\<lparr> args_start = None, args_end = None, args_event_name = ''$autocapture'',
           args_limit = 100 \<rparr>" "()" "[]"]
  by (simp add: env_set_def env_str_def engine_url_def window_def)

end
